theory Spec2Isabelle
  imports Complex_Main "HOL-Library.Sublist"
begin

section \<open>JavaScript strings and values\<close>

text \<open>
  The providers are TypeScript classes that work on strings.  A string is modelled as a
  \<^typ>\<open>string\<close>, one \<^typ>\<open>char\<close> per UTF-16 code unit, for the code units below 256
  (Latin-1): this covers every literal of the source, accented letters included, and
  keeps \<open>toLowerCase\<close>, \<open>trim\<close> and the regular expressions closed on the type.
\<close>

definition isUpper :: "char \<Rightarrow> bool" where
  "isUpper c = (let n = (of_char c :: nat) in
     (65 \<le> n \<and> n \<le> 90) \<or> (192 \<le> n \<and> n \<le> 222 \<and> n \<noteq> 215))"

definition lowerChar :: "char \<Rightarrow> char" where
  "lowerChar c = (if isUpper c then char_of ((of_char c :: nat) + 32) else c)"

definition toLowerCase :: "string \<Rightarrow> string" where
  "toLowerCase s = map lowerChar s"

text \<open>ECMAScript white space and line terminators below 256: TAB, LF, VT, FF, CR, SP, NBSP.\<close>

definition isSpace :: "char \<Rightarrow> bool" where
  "isSpace c = ((of_char c :: nat) \<in> {9, 10, 11, 12, 13, 32, 160})"

definition isDigit :: "char \<Rightarrow> bool" where
  "isDigit c = (c \<in> set ''0123456789'')"

definition isHex :: "char \<Rightarrow> bool" where
  "isHex c = (c \<in> set ''0123456789abcdefABCDEF'')"

definition isWord :: "char \<Rightarrow> bool" where
  "isWord c = (c \<in> set ''abcdefghijklmnopqrstuvwxyzABCDEFGHIJKLMNOPQRSTUVWXYZ0123456789_'')"

definition trim :: "string \<Rightarrow> string" where
  "trim s = rev (dropWhile isSpace (rev (dropWhile isSpace s)))"

fun startsWith :: "string \<Rightarrow> string \<Rightarrow> bool" where
  "startsWith s [] = True"
| "startsWith [] (p # ps) = False"
| "startsWith (x # xs) (p # ps) = (x = p \<and> startsWith xs ps)"

text \<open>\<open>s.includes(t)\<close>: \<open>t\<close> occurs in \<open>s\<close> at some position.\<close>

fun includesStr :: "string \<Rightarrow> string \<Rightarrow> bool" where
  "includesStr [] t = (t = [])"
| "includesStr (x # xs) t = (startsWith (x # xs) t \<or> includesStr xs t)"

text \<open>
  \<open>parseInt\<close> on a string that starts with decimal digits: the value of the longest digit
  prefix, \<open>None\<close> for \<open>NaN\<close>.  Every call of the source passes a digit run captured by a
  regular expression.  The value is exact; the source's is the nearest double, which
  agrees on every value up to \<open>2^53\<close> and lies on the same side of 9999 beyond that.
\<close>

definition digitVal :: "char \<Rightarrow> int" where
  "digitVal c = int ((of_char c :: nat) - 48)"

definition parseInt :: "string \<Rightarrow> int option" where
  "parseInt s = (case takeWhile isDigit s of
       [] \<Rightarrow> None
     | ds \<Rightarrow> Some (foldl (\<lambda>acc c. 10 * acc + digitVal c) 0 ds))"

text \<open>\<open>s.replace(t, u)\<close> with a string pattern: the first occurrence only.\<close>

fun strReplaceFirst :: "string \<Rightarrow> string \<Rightarrow> string \<Rightarrow> string" where
  "strReplaceFirst [] t u = (if t = [] then u else [])"
| "strReplaceFirst (x # xs) t u =
     (if startsWith (x # xs) t then u @ drop (length t) (x # xs)
      else x # strReplaceFirst xs t u)"

text \<open>A number written in decimal, as string concatenation renders it.\<close>

function showNat :: "nat \<Rightarrow> string" where
  "showNat n = (if n < 10 then [char_of (48 + n)]
                else showNat (n div 10) @ [char_of (48 + n mod 10)])"
  by pat_completeness auto
termination
  by (relation "measure id") auto

declare showNat.simps [simp del]

text \<open>A value that may be \<open>undefined\<close>; \<open>undefined\<close> and the empty string are falsy.\<close>

definition truthy :: "string option \<Rightarrow> bool" where
  "truthy v = (case v of None \<Rightarrow> False | Some s \<Rightarrow> s \<noteq> [])"

definition orEmpty :: "string option \<Rightarrow> string" where
  "orEmpty v = (case v of None \<Rightarrow> [] | Some s \<Rightarrow> s)"

text \<open>\<open>a || b\<close> on values that may be \<open>undefined\<close>.\<close>

definition orElse :: "string option \<Rightarrow> string option \<Rightarrow> string option" where
  "orElse a b = (if truthy a then a else b)"

section \<open>Regular expressions\<close>

text \<open>
  The fragment of ECMAScript regular expressions that the source uses: literal characters,
  character classes, greedy bounded repetition of a class, the lazy star of a class,
  sequence, alternation, numbered capture groups, \<open>\b\<close>, \<open>^\<close> and \<open>$\<close>.  Under the \<open>i\<close> flag a literal matches
  a character with the same canonical form; on Latin-1 two characters have the same
  canonical form exactly when their lower-case forms agree.  A class is matched as it
  stands: the classes of the source are closed under case, but for one, which is written
  with the letters that the flag adds.
\<close>

datatype rx =
    Chr char
  | Cls "char \<Rightarrow> bool"
  | Rep "char \<Rightarrow> bool" nat "nat option"
  | Seq rx rx
  | Alt rx rx
  | Grp nat rx
  | WordB
  | Bol
  | Eol
  | Eps
  | Lazy "char \<Rightarrow> bool"

text \<open>
  A matcher state: the character before the current position (for \<open>\b\<close> and \<open>^\<close>), the
  input still to read, and the captures made so far.
\<close>

type_synonym mstate = "char option \<times> string \<times> (nat \<rightharpoonup> string)"

definition chrEq :: "bool \<Rightarrow> char \<Rightarrow> char \<Rightarrow> bool" where
  "chrEq ci c x = (if ci then lowerChar c = lowerChar x else c = x)"

text \<open>
  The states after reading \<open>k\<close> characters of class \<open>P\<close>, for every admissible \<open>k\<close>, the
  longest first: a greedy quantifier gives characters back one at a time.
\<close>

fun repStates :: "(char \<Rightarrow> bool) \<Rightarrow> nat \<Rightarrow> nat option \<Rightarrow> nat \<Rightarrow> mstate \<Rightarrow> mstate list" where
  "repStates P lo hi k (p, [], g) = (if lo \<le> k then [(p, [], g)] else [])"
| "repStates P lo hi k (p, x # xs, g) =
     (if P x \<and> (case hi of None \<Rightarrow> True | Some h \<Rightarrow> k < h)
      then repStates P lo hi (Suc k) (Some x, xs, g) else [])
     @ (if lo \<le> k then [(p, x # xs, g)] else [])"

text \<open>
  The states of a lazy star, the shortest first: a lazy quantifier takes characters one
  at a time.
\<close>

fun lazyStates :: "(char \<Rightarrow> bool) \<Rightarrow> mstate \<Rightarrow> mstate list" where
  "lazyStates P (p, [], g) = [(p, [], g)]"
| "lazyStates P (p, x # xs, g) =
     (p, x # xs, g) # (if P x then lazyStates P (Some x, xs, g) else [])"

definition isWordOpt :: "char option \<Rightarrow> bool" where
  "isWordOpt c = (case c of None \<Rightarrow> False | Some x \<Rightarrow> isWord x)"

definition nextChar :: "string \<Rightarrow> char option" where
  "nextChar s = (case s of [] \<Rightarrow> None | x # _ \<Rightarrow> Some x)"

text \<open>
  All the ways the expression matches at the current position, in the order a
  backtracking matcher tries them; the head is the match ECMAScript reports.
\<close>

fun rxRun :: "bool \<Rightarrow> rx \<Rightarrow> mstate \<Rightarrow> mstate list" where
  "rxRun ci (Chr c) (p, s, g) =
     (case s of [] \<Rightarrow> [] | x # xs \<Rightarrow> if chrEq ci c x then [(Some x, xs, g)] else [])"
| "rxRun ci (Cls P) (p, s, g) =
     (case s of [] \<Rightarrow> [] | x # xs \<Rightarrow> if P x then [(Some x, xs, g)] else [])"
| "rxRun ci (Rep P lo hi) st = repStates P lo hi 0 st"
| "rxRun ci (Seq a b) st = concat (map (rxRun ci b) (rxRun ci a st))"
| "rxRun ci (Alt a b) st = rxRun ci a st @ rxRun ci b st"
| "rxRun ci (Grp n a) (p, s, g) =
     map (\<lambda>(p', s', g'). (p', s', g'(n \<mapsto> take (length s - length s') s)))
         (rxRun ci a (p, s, g))"
| "rxRun ci WordB (p, s, g) = (if isWordOpt p \<noteq> isWordOpt (nextChar s) then [(p, s, g)] else [])"
| "rxRun ci Bol (p, s, g) = (if p = None then [(p, s, g)] else [])"
| "rxRun ci Eol (p, s, g) = (if s = [] then [(p, s, g)] else [])"
| "rxRun ci Eps st = [st]"
| "rxRun ci (Lazy P) st = lazyStates P st"

text \<open>A literal string, and the shorthands of the source's patterns.\<close>

fun Lit :: "string \<Rightarrow> rx" where
  "Lit [] = Eps"
| "Lit [c] = Chr c"
| "Lit (c # cs) = Seq (Chr c) (Lit cs)"

fun Seqs :: "rx list \<Rightarrow> rx" where
  "Seqs [] = Eps"
| "Seqs [r] = r"
| "Seqs (r # rs) = Seq r (Seqs rs)"

text \<open>
  A match result as \<open>String.prototype.match\<close> and \<open>RegExp.prototype.exec\<close> return it:
  the matched text (index 0) and the groups.
\<close>

record rmatch =
  whole :: string
  groups :: "nat \<rightharpoonup> string"

definition mkMatch :: "string \<Rightarrow> mstate \<Rightarrow> rmatch" where
  "mkMatch s st = (case st of (p', s', g) \<Rightarrow>
     \<lparr>whole = take (length s - length s') s, groups = g\<rparr>)"

text \<open>\<open>s.match(r)\<close> without the \<open>g\<close> flag: the match at the leftmost position that has one.\<close>

fun rxFind :: "bool \<Rightarrow> rx \<Rightarrow> char option \<Rightarrow> string \<Rightarrow> rmatch option" where
  "rxFind ci r p [] =
     (case rxRun ci r (p, [], Map.empty) of [] \<Rightarrow> None | st # _ \<Rightarrow> Some (mkMatch [] st))"
| "rxFind ci r p (x # xs) =
     (case rxRun ci r (p, x # xs, Map.empty) of
        [] \<Rightarrow> rxFind ci r (Some x) xs
      | st # _ \<Rightarrow> Some (mkMatch (x # xs) st))"

definition rxMatch :: "bool \<Rightarrow> rx \<Rightarrow> string \<Rightarrow> rmatch option" where
  "rxMatch ci r s = rxFind ci r None s"

definition rxTest :: "bool \<Rightarrow> rx \<Rightarrow> string \<Rightarrow> bool" where
  "rxTest ci r s = (rxMatch ci r s \<noteq> None)"

text \<open>
  The successive matches under the \<open>g\<close> flag, as \<open>s.match(r)\<close> and a loop over
  \<open>r.exec(s)\<close> enumerate them: the search resumes where the previous match ended.  The
  last argument counts the characters of the previous match still to skip.
\<close>

fun rxAll :: "bool \<Rightarrow> rx \<Rightarrow> char option \<Rightarrow> string \<Rightarrow> nat \<Rightarrow> rmatch list" where
  "rxAll ci r p [] k =
     (if 0 < k then []
      else case rxRun ci r (p, [], Map.empty) of [] \<Rightarrow> [] | st # _ \<Rightarrow> [mkMatch [] st])"
| "rxAll ci r p (x # xs) k =
     (if 0 < k then rxAll ci r (Some x) xs (k - 1)
      else case rxRun ci r (p, x # xs, Map.empty) of
             [] \<Rightarrow> rxAll ci r (Some x) xs 0
           | st # _ \<Rightarrow> (let m = mkMatch (x # xs) st
                        in m # rxAll ci r (Some x) xs (length (whole m) - 1)))"

definition rxMatchAll :: "bool \<Rightarrow> rx \<Rightarrow> string \<Rightarrow> rmatch list" where
  "rxMatchAll ci r s = rxAll ci r None s 0"

text \<open>\<open>match[i]\<close> read as a string: an unset group reads as empty here.\<close>

definition grp :: "rmatch \<Rightarrow> nat \<Rightarrow> string" where
  "grp m i = (case groups m i of None \<Rightarrow> [] | Some t \<Rightarrow> t)"

text \<open>
  The leftmost match at or after the current position, with the index where it starts;
  the last argument is the index of the current position.
\<close>

fun rxSearch :: "bool \<Rightarrow> rx \<Rightarrow> char option \<Rightarrow> string \<Rightarrow> nat \<Rightarrow> (rmatch \<times> nat) option" where
  "rxSearch ci r p [] i =
     (case rxRun ci r (p, [], Map.empty) of [] \<Rightarrow> None | st # _ \<Rightarrow> Some (mkMatch [] st, i))"
| "rxSearch ci r p (x # xs) i =
     (case rxRun ci r (p, x # xs, Map.empty) of
        [] \<Rightarrow> rxSearch ci r (Some x) xs (Suc i)
      | st # _ \<Rightarrow> Some (mkMatch (x # xs) st, i))"

definition charBefore :: "string \<Rightarrow> nat \<Rightarrow> char option" where
  "charBefore s i = (if i = 0 then None else Some (s ! (i - 1)))"

text \<open>An expression of the source: its \<open>i\<close> flag, and its body.\<close>

type_synonym regexp = "bool \<times> rx"

definition strMatch :: "string \<Rightarrow> regexp \<Rightarrow> rmatch option" where
  "strMatch s re = rxMatch (fst re) (snd re) s"

definition strMatchAll :: "string \<Rightarrow> regexp \<Rightarrow> rmatch list" where
  "strMatchAll s re = rxMatchAll (fst re) (snd re) s"

text \<open>
  \<open>r.exec(s)\<close> on an expression with the \<open>g\<close> flag, whose \<open>lastIndex\<close> is the third
  argument: the result, and the \<open>lastIndex\<close> that the call leaves in the expression.  The
  search starts at \<open>lastIndex\<close>; a match leaves the index of its end, and a failure,
  also that of an index beyond the string, leaves 0.
\<close>

definition rxExec :: "regexp \<Rightarrow> string \<Rightarrow> nat \<Rightarrow> rmatch option \<times> nat" where
  "rxExec re s lastIndex =
     (if length s < lastIndex then (None, 0)
      else case rxSearch (fst re) (snd re) (charBefore s lastIndex) (drop lastIndex s) lastIndex of
             None \<Rightarrow> (None, 0)
           | Some (m, i) \<Rightarrow> (Some m, i + length (whole m)))"

text \<open>
  An expression that reads at least one character wherever it matches; a loop over
  \<open>exec\<close> with such an expression moves forward at every turn.
\<close>

fun consuming :: "rx \<Rightarrow> bool" where
  "consuming (Chr c) = True"
| "consuming (Cls P) = True"
| "consuming (Rep P lo hi) = (0 < lo)"
| "consuming (Seq a b) = (consuming a \<or> consuming b)"
| "consuming (Alt a b) = (consuming a \<and> consuming b)"
| "consuming (Grp n a) = consuming a"
| "consuming r = False"

text \<open>
  \<open>s.replace(r, f)\<close> under the \<open>g\<close> flag: every match is replaced by what \<open>f\<close> makes of
  it; after an empty match the search moves on by one character.
\<close>

fun rxReplaceFrom :: "bool \<Rightarrow> rx \<Rightarrow> (rmatch \<Rightarrow> string) \<Rightarrow> char option \<Rightarrow> string \<Rightarrow> nat \<Rightarrow> string" where
  "rxReplaceFrom ci r f p [] k =
     (if 0 < k then []
      else case rxRun ci r (p, [], Map.empty) of [] \<Rightarrow> [] | st # _ \<Rightarrow> f (mkMatch [] st))"
| "rxReplaceFrom ci r f p (x # xs) k =
     (if 0 < k then rxReplaceFrom ci r f (Some x) xs (k - 1)
      else case rxRun ci r (p, x # xs, Map.empty) of
             [] \<Rightarrow> x # rxReplaceFrom ci r f (Some x) xs 0
           | st # _ \<Rightarrow> (let m = mkMatch (x # xs) st
                        in f m @ (if whole m = [] then [x] else [])
                           @ rxReplaceFrom ci r f (Some x) xs (length (whole m) - 1)))"

definition strReplaceAll :: "string \<Rightarrow> regexp \<Rightarrow> (rmatch \<Rightarrow> string) \<Rightarrow> string" where
  "strReplaceAll s re f = rxReplaceFrom (fst re) (snd re) f None s 0"

text \<open>\<^verbatim>\<open>/\s+/g\<close>\<close>
definition SPACES :: regexp where
  "SPACES = (False, Rep isSpace 1 None)"

section \<open>Sorting an array\<close>

text \<open>
  \<open>Array.prototype.sort\<close> with a comparator is a stable sort (ECMAScript 2019): insertion
  from the right, an element going before the first one it does not compare greater
  than.  The comparator's result is given by its sign, \<open>NaN\<close> counting as zero.
\<close>

fun insertCmp :: "('a \<Rightarrow> 'a \<Rightarrow> int) \<Rightarrow> 'a \<Rightarrow> 'a list \<Rightarrow> 'a list" where
  "insertCmp cmp x [] = [x]"
| "insertCmp cmp x (y # ys) = (if cmp x y \<le> 0 then x # y # ys else y # insertCmp cmp x ys)"

definition sortCmp :: "('a \<Rightarrow> 'a \<Rightarrow> int) \<Rightarrow> 'a list \<Rightarrow> 'a list" where
  "sortCmp cmp xs = foldr (insertCmp cmp) xs []"

section \<open>The capabilities given by the host\<close>

text \<open>
  \<open>fetch\<close>, \<open>LoadDoc\<close>, the clock and the URI coding functions are not part of the
  providers; they are the environment of a call.  A fetch throws or yields a response
  with its \<open>ok\<close> flag and its body.  A document parsed by \<open>LoadDoc\<close> is known by its
  answers: a selector gives the matching nodes, and a node gives its text, its
  attributes, its parent's attributes and the nodes a selector finds below it.
\<close>

datatype response = Threw | Response (ok: bool) (body: string)

datatype node = Node (nodeText: string) (nodeAttr: "string \<Rightarrow> string option")
  (parentAttr: "string \<Rightarrow> string option") (nodeFind: "string \<Rightarrow> node list")

type_synonym selection = "node list"
type_synonym document = "string \<Rightarrow> node list"

definition selText :: "selection \<Rightarrow> string" where
  "selText sel = concat (map nodeText sel)"

definition selAttr :: "selection \<Rightarrow> string \<Rightarrow> string option" where
  "selAttr sel a = (case sel of [] \<Rightarrow> None | n # _ \<Rightarrow> nodeAttr n a)"

definition selFind :: "selection \<Rightarrow> string \<Rightarrow> selection" where
  "selFind sel q = concat (map (\<lambda>n. nodeFind n q) sel)"

definition selFirst :: "selection \<Rightarrow> selection" where
  "selFirst sel = take 1 sel"

record env =
  fetch :: "string \<Rightarrow> string \<Rightarrow> response"
  LoadDoc :: "string \<Rightarrow> document option"
  now :: "nat \<Rightarrow> string"
  encodeURIComponent :: "string \<Rightarrow> string"
  decodeURIComponent :: "string \<Rightarrow> string option"

text \<open>
  \<open>fetch env m u\<close> is the outcome of a request with method \<open>m\<close> for the URL \<open>u\<close> (the
  headers of a request are constants of the code and have no part here);
  \<open>LoadDoc env html\<close> is \<open>None\<close> when the host function throws or gives nothing usable;
  \<open>now env k\<close> is what the \<open>k\<close>-th reading of the clock in a call returns, as an ISO string;
  \<open>decodeURIComponent env s\<close> is \<open>None\<close> when the function throws on a malformed string.
\<close>

section \<open>The DarkMahou torrent provider\<close>

subsection \<open>Configuration and patterns\<close>

definition MAX_EPISODE_NUMBER :: int where "MAX_EPISODE_NUMBER = 9999"
definition MIN_EPISODE_NUMBER :: int where "MIN_EPISODE_NUMBER = 1"
definition MAX_YEAR :: int where "MAX_YEAR = 2000"
definition COMMON_RESOLUTIONS :: "int list" where "COMMON_RESOLUTIONS = [480, 720, 1080]"
definition MAX_BATCH_EPISODES :: int where "MAX_BATCH_EPISODES = 999"

text \<open>\<^verbatim>\<open>/btih:([a-fA-F0-9]{40})/i\<close>\<close>
definition INFO_HASH :: regexp where
  "INFO_HASH = (True, Seq (Lit ''btih:'') (Grp 1 (Rep isHex 40 (Some 40))))"

text \<open>\<^verbatim>\<open>/\b(\d{3,4}p)\b/i\<close>\<close>
definition RESOLUTION :: regexp where
  "RESOLUTION = (True, Seqs [WordB, Grp 1 (Seq (Rep isDigit 3 (Some 4)) (Chr CHR ''p'')), WordB])"

text \<open>\<^verbatim>\<open>/^\[([^\]]+)\]/\<close>\<close>
definition RELEASE_GROUP :: regexp where
  "RELEASE_GROUP = (False, Seqs [Bol, Chr CHR ''['',
      Grp 1 (Rep (\<lambda>c. c \<noteq> CHR '']'') 1 None), Chr CHR '']''])"

text \<open>\<^verbatim>\<open>/\b(\d{2,3})\s*[-~]\s*(\d{2,3})\b/\<close>\<close>
definition EPISODE_RANGE :: regexp where
  "EPISODE_RANGE = (False, Seqs [WordB, Grp 1 (Rep isDigit 2 (Some 3)), Rep isSpace 0 None,
      Cls (\<lambda>c. c \<in> set ''-~''), Rep isSpace 0 None, Grp 2 (Rep isDigit 2 (Some 3)), WordB])"

text \<open>\<^verbatim>\<open>/S(\d+)E(\d+)/i\<close>\<close>
definition SEASON_EPISODE :: regexp where
  "SEASON_EPISODE = (True, Seqs [Chr CHR ''S'', Grp 1 (Rep isDigit 1 None),
      Chr CHR ''E'', Grp 2 (Rep isDigit 1 None)])"

text \<open>\<^verbatim>\<open>/\s-\s(\d{1,4})\s/\<close>\<close>
definition EPISODE_DASH :: regexp where
  "EPISODE_DASH = (False, Seqs [Cls isSpace, Chr CHR ''-'', Cls isSpace,
      Grp 1 (Rep isDigit 1 (Some 4)), Cls isSpace])"

text \<open>\<^verbatim>\<open>/\b(\d{1,4})\b/g\<close>\<close>
definition EPISODE_NUMBER :: regexp where
  "EPISODE_NUMBER = (False, Seqs [WordB, Grp 1 (Rep isDigit 1 (Some 4)), WordB])"

text \<open>\<^verbatim>\<open>/episodio\s+(\d+)/i\<close> with an acute accent on the first \<open>o\<close>, the code unit \<open>0xF3\<close>.\<close>
definition PORTUGUESE :: regexp where
  "PORTUGUESE = (True, Seqs [Lit (''epis'' @ [CHR 0xF3] @ ''dio''), Rep isSpace 1 None,
      Grp 1 (Rep isDigit 1 None)])"

text \<open>\<^verbatim>\<open>/(?:ep|episode)\s*(\d+)/i\<close>\<close>
definition ENGLISH :: regexp where
  "ENGLISH = (True, Seqs [Alt (Lit ''ep'') (Lit ''episode''), Rep isSpace 0 None,
      Grp 1 (Rep isDigit 1 None)])"

text \<open>\<^verbatim>\<open>/\bs\d+\b/\<close> and \<^verbatim>\<open>/\bs\d+e\d+\b/\<close>, written inline in \<open>isBatchTorrent\<close>.\<close>
definition SEASON_ONLY :: regexp where
  "SEASON_ONLY = (False, Seqs [WordB, Chr CHR ''s'', Rep isDigit 1 None, WordB])"

definition SEASON_WITH_EPISODE :: regexp where
  "SEASON_WITH_EPISODE = (False, Seqs [WordB, Chr CHR ''s'', Rep isDigit 1 None,
      Chr CHR ''e'', Rep isDigit 1 None, WordB])"

text \<open>\<^verbatim>\<open>/\s-\s\d{1,3}(\s|$)/\<close>, written inline in \<open>isBatchTorrent\<close>.\<close>
definition INDIVIDUAL_EPISODE :: regexp where
  "INDIVIDUAL_EPISODE = (False, Seqs [Cls isSpace, Chr CHR ''-'', Cls isSpace,
      Rep isDigit 1 (Some 3), Grp 1 (Alt (Cls isSpace) Eol)])"

subsection \<open>Type guards\<close>

definition isValidMagnetLink :: "string \<Rightarrow> bool" where
  "isValidMagnetLink link = (startsWith link ''magnet:?'' \<and> length link > 20)"

text \<open>\<^verbatim>\<open>/^[a-fA-F0-9]{40}$/.test(hash)\<close>\<close>
definition isValidInfoHash :: "string \<Rightarrow> bool" where
  "isValidInfoHash hash = rxTest False (Seqs [Bol, Rep isHex 40 (Some 40), Eol]) hash"

definition isValidEpisodeNumber :: "int \<Rightarrow> bool" where
  "isValidEpisodeNumber num = (num \<ge> MIN_EPISODE_NUMBER \<and> num \<le> MAX_EPISODE_NUMBER)"

subsection \<open>TorrentParser\<close>

definition extractInfoHash :: "string \<Rightarrow> string" where
  "extractInfoHash magnetLink =
     (if \<not> isValidMagnetLink magnetLink then []
      else case strMatch magnetLink INFO_HASH of
             None \<Rightarrow> []
           | Some m \<Rightarrow> (case groups m 1 of
                None \<Rightarrow> []
              | Some hash \<Rightarrow> if hash \<noteq> [] \<and> isValidInfoHash hash then hash else []))"

definition parseResolution :: "string \<Rightarrow> string" where
  "parseResolution name =
     (case strMatch name RESOLUTION of
        None \<Rightarrow> []
      | Some m \<Rightarrow> (case groups m 1 of
           None \<Rightarrow> []
         | Some resolution \<Rightarrow>
             if resolution \<in> set [''480p'', ''720p'', ''1080p'', ''1440p'', ''4K'']
             then resolution else []))"

definition extractReleaseGroup :: "string \<Rightarrow> string" where
  "extractReleaseGroup name =
     (case strMatch name RELEASE_GROUP of None \<Rightarrow> [] | Some m \<Rightarrow> grp m 1)"

text \<open>
  A comparison with \<open>NaN\<close> is false, so a test on numbers that did not parse fails.
\<close>

definition rangeIsBatch :: "int option \<Rightarrow> int option \<Rightarrow> bool" where
  "rangeIsBatch start end' = (case (start, end') of
       (Some s, Some e) \<Rightarrow> e > s \<and> s \<ge> MIN_EPISODE_NUMBER \<and> e \<le> MAX_BATCH_EPISODES
     | _ \<Rightarrow> False)"

definition isBatchTorrent :: "string \<Rightarrow> string \<Rightarrow> bool" where
  "isBatchTorrent name episodeTitle =
     (let lowerName = toLowerCase name; lowerTitle = toLowerCase episodeTitle in
      if includesStr lowerName ''batch'' \<or> includesStr lowerName ''complete''
         \<or> includesStr lowerTitle ''~'' then True
      else if (case strMatch name EPISODE_RANGE of
                 None \<Rightarrow> False
               | Some rangeMatch \<Rightarrow>
                   rangeIsBatch (parseInt (grp rangeMatch 1)) (parseInt (grp rangeMatch 2)))
           then True
      else if strMatch lowerName SEASON_ONLY \<noteq> None
              \<and> strMatch lowerName SEASON_WITH_EPISODE = None then True
      else if strMatch name INDIVIDUAL_EPISODE \<noteq> None then False
      else False)"

definition validOrNull :: "int option \<Rightarrow> int option" where
  "validOrNull num = (case num of
       None \<Rightarrow> None
     | Some n \<Rightarrow> if isValidEpisodeNumber n then Some n else None)"

definition tryExtractFromPattern :: "string \<Rightarrow> regexp \<Rightarrow> int option" where
  "tryExtractFromPattern text pattern =
     (case strMatch text pattern of
        Some m \<Rightarrow> validOrNull (parseInt (grp m 1))
      | None \<Rightarrow> None)"

definition tryExtractFromSeasonEpisode :: "string \<Rightarrow> int option" where
  "tryExtractFromSeasonEpisode name =
     (case strMatch name SEASON_EPISODE of
        Some m \<Rightarrow> validOrNull (parseInt (grp m 2))
      | None \<Rightarrow> None)"

definition isValidEpisodeForIsolation :: "int \<Rightarrow> bool" where
  "isValidEpisodeForIsolation num =
     (isValidEpisodeNumber num \<and> num \<notin> set COMMON_RESOLUTIONS \<and> num < MAX_YEAR)"

text \<open>The loop over the matches of \<open>EPISODE_NUMBER\<close>, returning at the first valid one.\<close>

fun firstIsolated :: "string list \<Rightarrow> int option" where
  "firstIsolated [] = None"
| "firstIsolated (numStr # rest) =
     (case parseInt numStr of
        Some num \<Rightarrow> if isValidEpisodeForIsolation num then Some num else firstIsolated rest
      | None \<Rightarrow> firstIsolated rest)"

definition tryExtractFromIsolatedNumbers :: "string \<Rightarrow> int option" where
  "tryExtractFromIsolatedNumbers name =
     firstIsolated (map whole (strMatchAll name EPISODE_NUMBER))"

text \<open>
  The strategies are closures run in order; the loop returns the first result that is
  not \<open>null\<close>, and \<open>-1\<close> when all of them return \<open>null\<close>.
\<close>

fun runStrategies :: "(unit \<Rightarrow> int option) list \<Rightarrow> int" where
  "runStrategies [] = -1"
| "runStrategies (strategy # rest) =
     (case strategy () of Some result \<Rightarrow> result | None \<Rightarrow> runStrategies rest)"

definition extractEpisodeNumber :: "string \<Rightarrow> string \<Rightarrow> int" where
  "extractEpisodeNumber name episodeTitle =
     (if isBatchTorrent name episodeTitle then -1
      else runStrategies
        [\<lambda>_. tryExtractFromPattern episodeTitle PORTUGUESE,
         \<lambda>_. tryExtractFromPattern name EPISODE_DASH,
         \<lambda>_. tryExtractFromSeasonEpisode name,
         \<lambda>_. tryExtractFromPattern name ENGLISH,
         \<lambda>_. tryExtractFromIsolatedNumbers name])"

subsection \<open>Translation of the query\<close>

text \<open>The feminine ordinal indicator of \<open>1a temporada\<close> is the code unit \<open>0xAA\<close>.\<close>

definition ordinalTemporada :: "string \<Rightarrow> string" where
  "ordinalTemporada num = num @ [CHR 0xAA] @ '' temporada''"

text \<open>\<^verbatim>\<open>/\b(\d+)(?:st|nd|rd|th)\s+season\b/gi\<close>\<close>
definition SEASON_ORDINAL :: regexp where
  "SEASON_ORDINAL = (True, Seqs [WordB, Grp 1 (Rep isDigit 1 None),
      Alt (Lit ''st'') (Alt (Lit ''nd'') (Alt (Lit ''rd'') (Lit ''th''))),
      Rep isSpace 1 None, Lit ''season'', WordB])"

text \<open>\<^verbatim>\<open>/\bseason\s+(\d+)\b/gi\<close>\<close>
definition SEASON_NUMBER :: regexp where
  "SEASON_NUMBER = (True, Seqs [WordB, Lit ''season'', Rep isSpace 1 None,
      Grp 1 (Rep isDigit 1 None), WordB])"

text \<open>\<^verbatim>\<open>new RegExp(`\\b${english}\\s+season\\b`, "gi")\<close>\<close>
definition wordSeason :: "string \<Rightarrow> regexp" where
  "wordSeason english = (True, Seqs [WordB, Lit english, Rep isSpace 1 None, Lit ''season'', WordB])"

text \<open>\<^verbatim>\<open>new RegExp(`\\b${english}\\b`, "gi")\<close>\<close>
definition wholeWord :: "string \<Rightarrow> regexp" where
  "wholeWord english = (True, Seqs [WordB, Lit english, WordB])"

text \<open>\<^verbatim>\<open>/\bpart\s+(\d+)\b/gi\<close>\<close>
definition PART_NUMBER :: regexp where
  "PART_NUMBER = (True, Seqs [WordB, Lit ''part'', Rep isSpace 1 None,
      Grp 1 (Rep isDigit 1 None), WordB])"

definition ORDINAL_NUMBERS :: "(string \<times> string) list" where
  "ORDINAL_NUMBERS = [(''first'', ''1'' @ [CHR 0xAA]), (''second'', ''2'' @ [CHR 0xAA]),
     (''third'', ''3'' @ [CHR 0xAA]), (''fourth'', ''4'' @ [CHR 0xAA]),
     (''fifth'', ''5'' @ [CHR 0xAA])]"

definition TERMS :: "(string \<times> string) list" where
  "TERMS = [(''movie'', ''filme''), (''ova'', ''ova''), (''special'', ''especial'')]"

definition seasonOrdinal :: "string \<Rightarrow> string" where
  "seasonOrdinal query = strReplaceAll query SEASON_ORDINAL (\<lambda>m. ordinalTemporada (grp m 1))"

definition seasonNumber :: "string \<Rightarrow> string" where
  "seasonNumber query = strReplaceAll query SEASON_NUMBER (\<lambda>m. ordinalTemporada (grp m 1))"

definition ordinalNumbers :: "string \<Rightarrow> string" where
  "ordinalNumbers query =
     foldl (\<lambda>result (english, portuguese).
              strReplaceAll result (wordSeason english) (\<lambda>_. portuguese @ '' temporada''))
           query ORDINAL_NUMBERS"

definition commonTerms :: "string \<Rightarrow> string" where
  "commonTerms query =
     foldl (\<lambda>result (english, portuguese).
              strReplaceAll result (wholeWord english) (\<lambda>_. portuguese))
           query TERMS"

definition partNumbers :: "string \<Rightarrow> string" where
  "partNumbers query = strReplaceAll query PART_NUMBER (\<lambda>m. ''parte '' @ grp m 1)"

definition normalize :: "string \<Rightarrow> string" where
  "normalize query = trim (strReplaceAll query SPACES (\<lambda>_. '' ''))"

definition convertQuery :: "string \<Rightarrow> string" where
  "convertQuery query =
     foldl (\<lambda>acc rule. rule acc) query
       [seasonOrdinal, seasonNumber, ordinalNumbers, commonTerms, partNumbers, normalize]"

subsection \<open>AnimePageExtractor\<close>

text \<open>
  \<^verbatim>\<open>/<a[^>]+href="(https:\/\/darkmahou\.org\/[^\/]+\/)"[^>]*title="([^"]*)"[^>]*>/gi\<close>;
  the double quote is the code unit \<open>0x22\<close>.
\<close>
definition ANIME_PAGE_LINK :: regexp where
  "ANIME_PAGE_LINK = (True, Seqs [Lit ''<a'', Rep (\<lambda>c. c \<noteq> CHR ''>'') 1 None,
      Lit (''href='' @ [CHR 0x22]),
      Grp 1 (Seqs [Lit ''https://darkmahou.org/'', Rep (\<lambda>c. c \<noteq> CHR ''/'') 1 None, Chr CHR ''/'']),
      Chr (CHR 0x22), Rep (\<lambda>c. c \<noteq> CHR ''>'') 0 None,
      Lit (''title='' @ [CHR 0x22]), Grp 2 (Rep (\<lambda>c. c \<noteq> CHR 0x22) 0 None),
      Chr (CHR 0x22), Rep (\<lambda>c. c \<noteq> CHR ''>'') 0 None, Chr CHR ''>''])"

definition EXCLUDED_URL_PATTERNS :: "string list" where
  "EXCLUDED_URL_PATTERNS = [''/?s='', ''/tag/'', ''/blog/'', ''/contato'', ''/az-lists'',
     ''/em-breve'', ''/animes-populares'', ''/categoria'', ''/genero'']"

record ScoreMatch =
  url :: string
  title :: string
  score :: int

definition shouldSkipURL :: "string \<Rightarrow> bool" where
  "shouldSkipURL u = list_ex (\<lambda>pattern. includesStr u pattern) EXCLUDED_URL_PATTERNS"

definition calculateMatchScore :: "string \<Rightarrow> string \<Rightarrow> string \<Rightarrow> int" where
  "calculateMatchScore query t u =
     (let queryLower = toLowerCase query; titleLower = toLowerCase t; urlLower = toLowerCase u in
      if titleLower = queryLower then 100
      else if includesStr titleLower queryLower then 50
      else if includesStr urlLower (strReplaceAll queryLower SPACES (\<lambda>_. ''-'')) then 30
      else 0)"

definition selectBestMatch :: "ScoreMatch list \<Rightarrow> string" where
  "selectBestMatch potentialLinks =
     (if length potentialLinks = 0 then []
      else case sortCmp (\<lambda>a b. score b - score a) potentialLinks of
             bestMatch # _ \<Rightarrow> url bestMatch
           | [] \<Rightarrow> [])"

text \<open>
  The loop over \<open>linkRegex.exec(html)\<close>: a match whose URL is excluded is skipped, one
  with a positive score is pushed.  A match of the pattern is never empty, so the loop
  visits the matches that \<open>strMatchAll\<close> lists.
\<close>

fun collectLinks :: "string \<Rightarrow> rmatch list \<Rightarrow> ScoreMatch list" where
  "collectLinks query [] = []"
| "collectLinks query (m # ms) =
     (let u = grp m 1; t = grp m 2 in
      if shouldSkipURL u then collectLinks query ms
      else let sc = calculateMatchScore query t u in
           if sc > 0 then \<lparr>url = u, title = t, score = sc\<rparr> # collectLinks query ms
           else collectLinks query ms)"

definition extractPageURL :: "string \<Rightarrow> string \<Rightarrow> string" where
  "extractPageURL html query = selectBestMatch (collectLinks query (strMatchAll html ANIME_PAGE_LINK))"

subsection \<open>The provider\<close>

text \<open>
  The torrent object handed to the host.  The host hands such objects back to
  \<open>getTorrentInfoHash\<close> and \<open>getTorrentMagnetLink\<close>, where \<open>magnetLink\<close> and \<open>infoHash\<close>
  may be absent.
\<close>

record AnimeTorrent =
  name :: string
  date :: string
  torrentSize :: int
  formattedSize :: string
  seeders :: int
  leechers :: int
  downloadCount :: int
  link :: string
  downloadUrl :: string
  magnetLink :: "string option"
  infoHash :: "string option"
  resolution :: string
  isBatch :: bool
  episodeNumber :: int
  releaseGroup :: string
  isBestRelease :: bool
  confirmed :: bool

record Media =
  romajiTitle :: "string option"
  englishTitle :: "string option"

record AnimeSearchOptions =
  media :: Media
  query :: string

record AnimeSmartSearchOptions = AnimeSearchOptions +
  batch :: bool
  optEpisodeNumber :: int
  optResolution :: string


text \<open>The provider object: its two read-only fields; the translator has no field.\<close>

record Provider =
  api :: string
  translator :: unit

definition newProvider :: Provider where
  "newProvider = \<lparr>api = ''https://darkmahou.org'', translator = ()\<rparr>"

text \<open>\<^verbatim>\<open>/magnet:\?[^"'\s<>]+/gi\<close>\<close>
definition MAGNET_LINK :: regexp where
  "MAGNET_LINK = (True, Seq (Lit ''magnet:?'')
      (Rep (\<lambda>c. c \<notin> {CHR 0x22, CHR 0x27, CHR ''<'', CHR ''>''} \<and> \<not> isSpace c) 1 None))"

text \<open>\<^verbatim>\<open>/&dn=([^&]+)/\<close>\<close>
definition DISPLAY_NAME :: regexp where
  "DISPLAY_NAME = (False, Seq (Lit ''&dn='') (Grp 1 (Rep (\<lambda>c. c \<noteq> CHR ''&'') 1 None)))"

text \<open>
  \<open>HTTPClient.fetchWithUserAgent\<close>: the body on success; \<open>None\<close> when the request throws
  or the status is not OK.
\<close>

definition fetchWithUserAgent :: "env \<Rightarrow> string \<Rightarrow> string option" where
  "fetchWithUserAgent e u =
     (case fetch e ''GET'' u of
        Threw \<Rightarrow> None
      | Response isOk text \<Rightarrow> if \<not> isOk then None else Some text)"

definition createAnimeTorrent ::
  "string \<Rightarrow> string \<Rightarrow> string \<Rightarrow> string \<Rightarrow> string \<Rightarrow> string \<Rightarrow> AnimeTorrent" where
  "createAnimeTorrent isoNow nm magnet pageURL res episodeTitle =
     (let hash = extractInfoHash magnet;
          parsedResolution = (if parseResolution nm \<noteq> [] then parseResolution nm else res);
          batchFlag = isBatchTorrent nm episodeTitle;
          episode = extractEpisodeNumber nm episodeTitle;
          grpName = extractReleaseGroup nm
      in \<lparr>name = nm, date = isoNow, torrentSize = 0, formattedSize = ''N/A'', seeders = 0,
          leechers = 0, downloadCount = 0, link = pageURL, downloadUrl = [],
          magnetLink = Some magnet, infoHash = Some hash, resolution = parsedResolution,
          isBatch = batchFlag, episodeNumber = episode, releaseGroup = grpName,
          isBestRelease = False, confirmed = True\<rparr>)"

text \<open>
  The rows of one \<open>div.soraddl\<close> block that carry a magnet link, each as the arguments of
  \<open>createAnimeTorrent\<close>: name, magnet link, resolution, episode title.
\<close>

definition blockRows :: "node \<Rightarrow> (string \<times> string \<times> string \<times> string) list" where
  "blockRows element =
     (let episodeTitle = trim (selText (selFind [element] ''h3'')) in
      concat (map (\<lambda>row.
        let res = trim (selText (selFind [row] ''td.reso''));
            magnet = selAttr (selFind [row] ''td div.slink a'') ''href''
        in if truthy magnet \<and> startsWith (orEmpty magnet) ''magnet:?''
           then (let cleanedResolution = trim (strReplaceFirst res ''>>'' [])
                 in [(episodeTitle @ '' - '' @ cleanedResolution, orEmpty magnet,
                      cleanedResolution, episodeTitle)])
           else [])
        (selFind [element] ''div.content table tbody tr'')))"

text \<open>The objects are created in order; the \<open>k\<close>-th one reads the clock for the \<open>k\<close>-th time.\<close>

definition createAll :: "env \<Rightarrow> string \<Rightarrow> (string \<times> string \<times> string \<times> string) list \<Rightarrow> AnimeTorrent list" where
  "createAll e pageURL rows =
     map (\<lambda>(k, (nm, magnet, res, episodeTitle)).
            createAnimeTorrent (now e k) nm magnet pageURL res episodeTitle)
         (zip [0..<length rows] rows)"

definition parseWithLoadDoc :: "env \<Rightarrow> string \<Rightarrow> string \<Rightarrow> AnimeTorrent list" where
  "parseWithLoadDoc e html pageURL =
     (case LoadDoc e html of
        None \<Rightarrow> []
      | Some doc \<Rightarrow> createAll e pageURL (concat (map blockRows (doc ''div.soraddl''))))"

definition extractTorrentNameFromMagnet :: "env \<Rightarrow> string \<Rightarrow> nat \<Rightarrow> string" where
  "extractTorrentNameFromMagnet e magnet fallbackNumber =
     (case strMatch magnet DISPLAY_NAME of
        Some dnMatch \<Rightarrow> (case decodeURIComponent e (grp dnMatch 1) of
                          Some decoded \<Rightarrow> decoded
                        | None \<Rightarrow> grp dnMatch 1)
      | None \<Rightarrow> ''Episode '' @ showNat fallbackNumber)"

definition parseWithRegexFallback :: "env \<Rightarrow> string \<Rightarrow> string \<Rightarrow> AnimeTorrent list" where
  "parseWithRegexFallback e html pageURL =
     (let magnetMatches = map whole (strMatchAll html MAGNET_LINK) in
      createAll e pageURL
        (map (\<lambda>(index, magnet).
                let torrentName = extractTorrentNameFromMagnet e magnet (index + 1)
                in (torrentName, magnet, parseResolution torrentName, []))
             (zip [0..<length magnetMatches] magnetMatches)))"

definition parseTorrentsFromHTML :: "env \<Rightarrow> string \<Rightarrow> string \<Rightarrow> AnimeTorrent list" where
  "parseTorrentsFromHTML e html pageURL =
     (let loadDocResults = parseWithLoadDoc e html pageURL in
      if length loadDocResults > 0 then loadDocResults
      else parseWithRegexFallback e html pageURL)"

definition fetchTorrentsFromAnimePage :: "env \<Rightarrow> string \<Rightarrow> AnimeTorrent list" where
  "fetchTorrentsFromAnimePage e pageURL =
     (case fetchWithUserAgent e pageURL of
        None \<Rightarrow> []
      | Some text \<Rightarrow> parseTorrentsFromHTML e text pageURL)"

definition searchURL :: "Provider \<Rightarrow> env \<Rightarrow> string \<Rightarrow> string" where
  "searchURL this e q = api this @ ''/?s='' @ encodeURIComponent e (convertQuery q)"

definition search :: "Provider \<Rightarrow> env \<Rightarrow> AnimeSearchOptions \<Rightarrow> AnimeTorrent list" where
  "search this e opts =
     (let convertedQuery = convertQuery (query opts) in
      case fetchWithUserAgent e (searchURL this e (query opts)) of
        None \<Rightarrow> []
      | Some text \<Rightarrow>
          (let animePageURL = extractPageURL text convertedQuery in
           if animePageURL = [] then []
           else fetchTorrentsFromAnimePage e animePageURL))"

text \<open>
  The filters are pushed in the order episode number, resolution, batch, and applied
  one after the other.
\<close>

definition smartFilters :: "AnimeSmartSearchOptions \<Rightarrow> (AnimeTorrent \<Rightarrow> bool) list" where
  "smartFilters opts =
     (if optEpisodeNumber opts \<noteq> 0 \<and> optEpisodeNumber opts > 0
      then [\<lambda>t. episodeNumber t = optEpisodeNumber opts \<or> isBatch t \<or> episodeNumber t = -1]
      else [])
     @ (if optResolution opts \<noteq> []
        then [\<lambda>t. resolution t = [] \<or> includesStr (resolution t) (optResolution opts)]
        else [])
     @ (if batch opts then [\<lambda>t. isBatch t] else [])"

definition applySmartSearchFilters ::
  "AnimeTorrent list \<Rightarrow> AnimeSmartSearchOptions \<Rightarrow> AnimeTorrent list" where
  "applySmartSearchFilters results opts =
     foldl (\<lambda>filteredResults flt. filter flt filteredResults) results (smartFilters opts)"

definition smartQuery :: "AnimeSmartSearchOptions \<Rightarrow> string" where
  "smartQuery opts =
     (if query opts \<noteq> [] then query opts
      else if truthy (romajiTitle (media opts)) then orEmpty (romajiTitle (media opts))
      else if truthy (englishTitle (media opts)) then orEmpty (englishTitle (media opts))
      else [])"

definition smartSearch :: "Provider \<Rightarrow> env \<Rightarrow> AnimeSmartSearchOptions \<Rightarrow> AnimeTorrent list" where
  "smartSearch this e opts =
     (let searchResults = search this e \<lparr>media = media opts, query = smartQuery opts\<rparr> in
      if length searchResults = 0 then []
      else applySmartSearchFilters searchResults opts)"

definition EXAMPLE_HASH :: string where
  "EXAMPLE_HASH = ''1234567890abcdef1234567890abcdef12345678''"

definition getTorrentInfoHash :: "AnimeTorrent \<Rightarrow> string" where
  "getTorrentInfoHash torrent =
     (if truthy (infoHash torrent) then orEmpty (infoHash torrent)
      else if truthy (magnetLink torrent) \<and> extractInfoHash (orEmpty (magnetLink torrent)) \<noteq> []
        then extractInfoHash (orEmpty (magnetLink torrent))
      else if \<not> truthy (magnetLink torrent) \<and> \<not> truthy (infoHash torrent) then EXAMPLE_HASH
      else [])"





section \<open>The Q1N streaming provider\<close>

text \<open>
  The provider of \<open>q1n.net\<close>.  Names that the torrent provider already uses carry the
  suffix \<open>Q1N\<close>.
\<close>

definition API_BASE :: string where "API_BASE = ''https://q1n.net''"
definition SUPPORTED_SERVERS :: "string list" where "SUPPORTED_SERVERS = [''chplay'', ''ruplay'']"
definition DEFAULT_SERVER :: string where "DEFAULT_SERVER = ''chplay''"

definition SEARCH_CONTAINERS :: "string list" where
  "SEARCH_CONTAINERS = [''.items .item'', ''.result .item'', ''.search-result .item'',
     ''article'', ''.post'', ''.anime-item'']"

definition SEARCH_TITLES :: "string list" where
  "SEARCH_TITLES = [''.data h3'', ''h3'', ''h2'', ''.title'', ''.name'']"

definition SEARCH_URLS :: "string list" where
  "SEARCH_URLS = [''.poster a'', ''a'', ''.link'']"

definition PLAYER_ELEMENTS :: string where "PLAYER_ELEMENTS = ''li, a, button, span, div''"
definition IFRAMES :: string where "IFRAMES = ''iframe''"

record SearchResult =
  resultId :: string
  resultTitle :: string
  resultUrl :: string
  subOrDub :: string

record EpisodeDetails =
  epId :: string
  epNumber :: int
  epUrl :: string
  epTitle :: string

record VideoSource =
  sourceUrl :: string
  sourceType :: string
  quality :: string
  subtitles :: "string list"

record EpisodeServer =
  server :: string
  headers :: "(string \<times> string) list"
  videoSources :: "VideoSource list"

datatype error =
    InvalidEpisodeData
  | PageNotLoaded
  | NoVideoSource
  | LoadDocError
  | FetchError
  | JsonError

text \<open>\<open>try { ... } catch (error) { return [] }\<close> around a body that may throw.\<close>

definition catchEmpty :: "error + 'a list \<Rightarrow> 'a list" where
  "catchEmpty r = (case r of Inl err \<Rightarrow> [] | Inr v \<Rightarrow> v)"

definition DEFAULT_HEADERS :: "(string \<times> string) list" where
  "DEFAULT_HEADERS = [(''Referer'', API_BASE),
     (''User-Agent'', ''Mozilla/5.0 (Windows NT 10.0; Win64; x64) AppleWebKit/537.36'')]"

definition buildSearchUrl :: "env \<Rightarrow> string \<Rightarrow> bool \<Rightarrow> string" where
  "buildSearchUrl e q isDub =
     (let searchQuery = (if isDub then q @ '' dublado'' else q)
      in API_BASE @ ''/?s='' @ encodeURIComponent e searchQuery)"

text \<open>\<open>fetchHtml\<close>: the body, or \<open>null\<close> when the request throws or the status is not OK.\<close>

definition fetchHtml :: "env \<Rightarrow> string \<Rightarrow> string option" where
  "fetchHtml e u =
     (case fetch e ''GET'' u of
        Threw \<Rightarrow> None
      | Response isOk text \<Rightarrow> if \<not> isOk then None else Some text)"

text \<open>\<^verbatim>\<open>/animes\/([^\/]+)/\<close>, \<^verbatim>\<open>/episodio\/([^\/]+)/\<close> and \<^verbatim>\<open>/\/([^\/]+)\/?$/\<close>\<close>
definition ANIME_ID :: regexp where
  "ANIME_ID = (False, Seq (Lit ''animes/'') (Grp 1 (Rep (\<lambda>c. c \<noteq> CHR ''/'') 1 None)))"

definition LAST_SEGMENT :: regexp where
  "LAST_SEGMENT = (False, Seqs [Chr CHR ''/'', Grp 1 (Rep (\<lambda>c. c \<noteq> CHR ''/'') 1 None),
      Rep (\<lambda>c. c = CHR ''/'') 0 (Some 1), Eol])"

definition extractIdFromUrl :: "string \<Rightarrow> string" where
  "extractIdFromUrl u =
     (case strMatch u ANIME_ID of
        Some m \<Rightarrow> grp m 1
      | None \<Rightarrow> (case strMatch u LAST_SEGMENT of Some m \<Rightarrow> grp m 1 | None \<Rightarrow> u))"

definition detectSubOrDub :: "string \<Rightarrow> string" where
  "detectSubOrDub t =
     (let lowerTitle = toLowerCase t in
      if includesStr lowerTitle ''dublado'' \<or> includesStr lowerTitle ''dub'' then ''dub'' else ''sub'')"

fun extractTextFromSelectors :: "node \<Rightarrow> string list \<Rightarrow> string" where
  "extractTextFromSelectors element [] = []"
| "extractTextFromSelectors element (selector # rest) =
     (let text = trim (selText (selFirst (nodeFind element selector))) in
      if text \<noteq> [] then text else extractTextFromSelectors element rest)"

fun extractUrlFromSelectors :: "node \<Rightarrow> string list \<Rightarrow> string" where
  "extractUrlFromSelectors element [] =
     (let elementHref = nodeAttr element ''href'' in
      if truthy elementHref \<and> includesStr (orEmpty elementHref) ''/animes/''
      then orEmpty elementHref else [])"
| "extractUrlFromSelectors element (selector # rest) =
     (let href = selAttr (selFirst (nodeFind element selector)) ''href'' in
      if truthy href \<and> includesStr (orEmpty href) ''/animes/'' then orEmpty href
      else extractUrlFromSelectors element rest)"

definition parseSearchResultElement :: "node \<Rightarrow> SearchResult option" where
  "parseSearchResultElement element =
     (let t = extractTextFromSelectors element SEARCH_TITLES;
          u = extractUrlFromSelectors element SEARCH_URLS in
      if t = [] \<or> u = [] then None
      else Some \<lparr>resultId = extractIdFromUrl u, resultTitle = t, resultUrl = u,
                  subOrDub = detectSubOrDub t\<rparr>)"

text \<open>
  The loop of \<open>parseSearchResults\<close> over the container selectors: each selector is passed
  to the document and the results of its elements are pushed; the loop ends at the first
  selector after which the list is not empty.  Beside the results, the model returns the
  selectors that were passed to the document, in order.
\<close>

fun searchLoop :: "document \<Rightarrow> SearchResult list \<Rightarrow> string list \<Rightarrow> SearchResult list \<times> string list" where
  "searchLoop doc results [] = (results, [])"
| "searchLoop doc results (containerSelector # rest) =
     (let results' = results @ List.map_filter parseSearchResultElement (doc containerSelector) in
      if length results' > 0 then (results', [containerSelector])
      else (case searchLoop doc results' rest of
              (final, consulted) \<Rightarrow> (final, containerSelector # consulted)))"

definition parseSearchResults :: "document \<Rightarrow> SearchResult list" where
  "parseSearchResults doc = fst (searchLoop doc [] SEARCH_CONTAINERS)"

definition consultedSelectors :: "document \<Rightarrow> string list" where
  "consultedSelectors doc = snd (searchLoop doc [] SEARCH_CONTAINERS)"

text \<open>
  \<open>search\<close>: the body of the \<open>try\<close> block, in which \<open>LoadDoc\<close> may throw, and the
  operation, which catches whatever is thrown and returns the empty list.  An empty body
  counts as no body.
\<close>

definition searchBodyQ1N :: "env \<Rightarrow> string \<Rightarrow> bool \<Rightarrow> error + SearchResult list" where
  "searchBodyQ1N e q dub =
     (case fetchHtml e (buildSearchUrl e q dub) of
        None \<Rightarrow> Inr []
      | Some html \<Rightarrow>
          if html = [] then Inr []
          else (case LoadDoc e html of
                  None \<Rightarrow> Inl LoadDocError
                | Some doc \<Rightarrow> Inr (parseSearchResults doc)))"

definition searchQ1N :: "env \<Rightarrow> string \<Rightarrow> bool \<Rightarrow> SearchResult list" where
  "searchQ1N e q dub = catchEmpty (searchBodyQ1N e q dub)"

subsection \<open>The server of an episode\<close>

text \<open>
  A \<open>Map\<close> keeps its keys in insertion order: an association list in which \<open>set\<close>
  replaces the value of a key that is there and appends a key that is not.
\<close>

type_synonym players = "(string \<times> string) list"

fun mapSet :: "players \<Rightarrow> string \<Rightarrow> string \<Rightarrow> players" where
  "mapSet [] k v = [(k, v)]"
| "mapSet ((k', v') # rest) k v = (if k' = k then (k, v) # rest else (k', v') # mapSet rest k v)"

definition mapGet :: "players \<Rightarrow> string \<Rightarrow> string option" where
  "mapGet m k = map_of m k"

text \<open>\<open>players.values().next().value\<close>\<close>
definition firstValue :: "players \<Rightarrow> string option" where
  "firstValue m = (case m of [] \<Rightarrow> None | (k, v) # _ \<Rightarrow> Some v)"

definition validateEpisodeData :: "EpisodeDetails \<Rightarrow> bool" where
  "validateEpisodeData episode = (\<not> (epId episode = [] \<or> epUrl episode = [] \<or> trim (epUrl episode) = []))"

text \<open>The server whose name the address contains, the first of the supported ones.\<close>

definition iframeKey :: "string \<Rightarrow> string" where
  "iframeKey src = (case filter (\<lambda>srv. includesStr src srv) SUPPORTED_SERVERS of
       srv # _ \<Rightarrow> srv | [] \<Rightarrow> ''default'')"

fun extractPlayersFromIframes :: "node list \<Rightarrow> players \<Rightarrow> players" where
  "extractPlayersFromIframes [] m = m"
| "extractPlayersFromIframes (iframe # rest) m =
     (let src = nodeAttr iframe ''src'' in
      if truthy src \<and> trim (orEmpty src) \<noteq> [] \<and> \<not> includesStr (orEmpty src) ''about:blank''
      then extractPlayersFromIframes rest (mapSet m (iframeKey (orEmpty src)) (orEmpty src))
      else extractPlayersFromIframes rest m)"

fun extractPlayersFromElements :: "node list \<Rightarrow> players \<Rightarrow> players" where
  "extractPlayersFromElements [] m = m"
| "extractPlayersFromElements (element # rest) m =
     (let text = trim (toLowerCase (nodeText element)) in
      if text \<in> set SUPPORTED_SERVERS then
        (let parentHref = parentAttr element ''href''; elementHref = nodeAttr element ''href'' in
         if truthy parentHref then extractPlayersFromElements rest (mapSet m text (orEmpty parentHref))
         else if truthy elementHref then extractPlayersFromElements rest (mapSet m text (orEmpty elementHref))
         else extractPlayersFromElements rest m)
      else extractPlayersFromElements rest m)"

definition createFallbackPlayers :: "players \<Rightarrow> string \<Rightarrow> players" where
  "createFallbackPlayers m episodeId =
     foldl (\<lambda>acc srv. mapSet acc srv (API_BASE @ ''/player/'' @ srv @ ''/'' @ episodeId))
           m SUPPORTED_SERVERS"

definition extractPlayersFromPage :: "document \<Rightarrow> EpisodeDetails \<Rightarrow> players" where
  "extractPlayersFromPage doc episode =
     (let m = extractPlayersFromElements (doc PLAYER_ELEMENTS)
                (extractPlayersFromIframes (doc IFRAMES) []) in
      if length m = 0 then createFallbackPlayers m (epId episode) else m)"

definition selectBestPlayer :: "players \<Rightarrow> string \<Rightarrow> error + string" where
  "selectBestPlayer m preferredServer =
     (let playerUrl = orElse (mapGet m preferredServer)
                        (orElse (mapGet m DEFAULT_SERVER)
                           (orElse (mapGet m (SUPPORTED_SERVERS ! 1)) (firstValue m))) in
      if \<not> truthy playerUrl \<or> includesStr (orEmpty playerUrl) ''about:blank''
      then Inl NoVideoSource
      else Inr (orEmpty playerUrl))"

definition buildEpisodeServerResponse :: "string \<Rightarrow> string \<Rightarrow> EpisodeServer" where
  "buildEpisodeServerResponse srv playerUrl =
     \<lparr>server = srv, headers = DEFAULT_HEADERS,
      videoSources = [\<lparr>sourceUrl = playerUrl, sourceType = ''mp4'', quality = ''1080p'',
                       subtitles = []\<rparr>]\<rparr>"

definition selectedServerOf :: "string \<Rightarrow> string" where
  "selectedServerOf srv = (if srv = ''default'' \<or> srv = [] then DEFAULT_SERVER else srv)"

text \<open>\<open>findEpisodeServer\<close> logs what is thrown inside and throws it again.\<close>

definition findEpisodeServer :: "env \<Rightarrow> EpisodeDetails \<Rightarrow> string \<Rightarrow> error + EpisodeServer" where
  "findEpisodeServer e episode srv =
     (if \<not> validateEpisodeData episode then Inl InvalidEpisodeData
      else case fetchHtml e (epUrl episode) of
        None \<Rightarrow> Inl PageNotLoaded
      | Some html \<Rightarrow>
          if html = [] then Inl PageNotLoaded
          else (case LoadDoc e html of
                  None \<Rightarrow> Inl LoadDocError
                | Some doc \<Rightarrow>
                    (let m = extractPlayersFromPage doc episode;
                         selectedServer = selectedServerOf srv in
                     case selectBestPlayer m selectedServer of
                       Inl err \<Rightarrow> Inl err
                     | Inr playerUrl \<Rightarrow> Inr (buildEpisodeServerResponse selectedServer playerUrl))))"

subsection \<open>The episodes of an anime\<close>


























subsection \<open>The refactored provider\<close>

text \<open>
  A second form of the provider (the classes \<open>UrlBuilder\<close>, \<open>HttpClient\<close>, \<open>SearchParser\<close>,
  \<open>EpisodeParser\<close>, \<open>EpisodeFinder\<close>, \<open>PlayerExtractor\<close> and others) has the same
  \<open>search\<close> and \<open>findEpisodes\<close> as above, and another \<open>findEpisodeServer\<close>, which reads the
  page with two regular expressions held in a static table.  Both carry the \<open>g\<close> flag and
  are used with \<open>exec\<close>, so each keeps its \<open>lastIndex\<close> from one call of \<open>exec\<close> to the
  next, and from one call of the provider to the next.  These two numbers are the only
  thing in the providers that an operation writes and a later operation can read: no
  operation assigns to a field of a provider or to another static.
\<close>

record runtime =
  avisoLastIndex :: nat
  directLastIndex :: nat

definition initialRuntime :: runtime where
  "initialRuntime = \<lparr>avisoLastIndex = 0, directLastIndex = 0\<rparr>"

definition isQuote :: "char \<Rightarrow> bool" where
  "isQuote c = (c = CHR 0x22 \<or> c = CHR 0x27)"

text \<open>\<^verbatim>\<open>/<iframe[^>]*src=["']([^"']*\/aviso\/[^"']*)["'][^>]*>/gi\<close>\<close>
definition IFRAME_AVISO :: regexp where
  "IFRAME_AVISO = (True, Seqs [Lit ''<iframe'', Rep (\<lambda>c. c \<noteq> CHR ''>'') 0 None, Lit ''src='',
      Cls isQuote,
      Grp 1 (Seqs [Rep (\<lambda>c. \<not> isQuote c) 0 None, Lit ''/aviso/'', Rep (\<lambda>c. \<not> isQuote c) 0 None]),
      Cls isQuote, Rep (\<lambda>c. c \<noteq> CHR ''>'') 0 None, Chr CHR ''>''])"

text \<open>\<^verbatim>\<open>/<iframe[^>]*src=["']([^"']*(?:blogger\.com|youtube\.com|youtu\.be)[^"']*)["'][^>]*>/gi\<close>\<close>
definition IFRAME_DIRECT :: regexp where
  "IFRAME_DIRECT = (True, Seqs [Lit ''<iframe'', Rep (\<lambda>c. c \<noteq> CHR ''>'') 0 None, Lit ''src='',
      Cls isQuote,
      Grp 1 (Seqs [Rep (\<lambda>c. \<not> isQuote c) 0 None,
                   Alt (Lit ''blogger.com'') (Alt (Lit ''youtube.com'') (Lit ''youtu.be'')),
                   Rep (\<lambda>c. \<not> isQuote c) 0 None]),
      Cls isQuote, Rep (\<lambda>c. c \<noteq> CHR ''>'') 0 None, Chr CHR ''>''])"

text \<open>\<^verbatim>\<open>/url=([^&]+)/\<close>\<close>
definition URL_PARAM :: regexp where
  "URL_PARAM = (False, Seq (Lit ''url='') (Grp 1 (Rep (\<lambda>c. c \<noteq> CHR ''&'') 1 None)))"

definition REFACTORED_HEADERS :: "(string \<times> string) list" where
  "REFACTORED_HEADERS = [(''Referer'', API_BASE),
     (''User-Agent'', ''Mozilla/5.0 (Windows NT 10.0; Win64; x64) AppleWebKit/537.36 (KHTML, like Gecko) Chrome/91.0.4472.124 Safari/537.36'')]"


definition mapHas :: "players \<Rightarrow> string \<Rightarrow> bool" where
  "mapHas m k = (k \<in> fst ` set m)"






definition buildEpisodeServer :: "string \<Rightarrow> string \<Rightarrow> EpisodeServer" where
  "buildEpisodeServer srv playerUrl =
     \<lparr>server = srv, headers = REFACTORED_HEADERS,
      videoSources = [\<lparr>sourceUrl = playerUrl, sourceType = ''m3u8'', quality = ''1080p'',
                       subtitles = []\<rparr>]\<rparr>"


subsection \<open>The later form of the refactored provider\<close>

text \<open>
  A third form of the provider (in the file \<open>src/darkmahou-provider.ts\<close>) has the same
  static table and the same two loops, but in the first loop it decodes the \<open>url\<close>
  parameter of a warning frame itself, outside any \<open>try\<close> block of the loop, and then
  looks for the video behind the player with \<open>extractVideoUrl\<close>.  That function fetches
  the player page and searches it with expressions of its own, some of them built from
  the text of the page; it has a \<open>try\<close> block around its whole body and returns an
  address or \<open>null\<close>.  Its body is not modelled: it is the parameter \<open>resolve\<close> below.
\<close>

definition mapPlayerByUrlLater :: "players \<Rightarrow> string \<Rightarrow> players" where
  "mapPlayerByUrlLater m u =
     (if includesStr u ''disneycdn.net'' \<and> \<not> mapHas m ''chplay'' then mapSet m ''chplay'' u
      else if (includesStr u ''csst.online'' \<or> includesStr u ''secvideo'') \<and> \<not> mapHas m ''ruplay''
        then mapSet m ''ruplay'' u
      else if includesStr u ''secvideo'' \<and> \<not> mapHas m ''ruplay'' then mapSet m ''ruplay'' u
      else if includesStr u ''disneycdn.net'' then mapSet m ''chplay'' u
      else if \<not> mapHas m ''chplay'' then mapSet m ''chplay'' u
      else if \<not> mapHas m ''ruplay'' then mapSet m ''ruplay'' u
      else m)"

text \<open>
  The first loop: the players at its end, under \<open>Inl\<close> when \<open>decodeURIComponent\<close> throws,
  which ends the loop and \<open>extractFromHtml\<close> at once; and the \<open>lastIndex\<close> at that moment.
\<close>

function avisoLoopLater ::
  "(string \<Rightarrow> string option) \<Rightarrow> env \<Rightarrow> string \<Rightarrow> nat \<Rightarrow> players \<Rightarrow> (players + players) \<times> nat" where
  "avisoLoopLater resolve e html lastIndex m =
     (case rxExec IFRAME_AVISO html lastIndex of
        (None, after) \<Rightarrow> (Inr m, after)
      | (Some match, after) \<Rightarrow>
          (case strMatch (grp match 1) URL_PARAM of
             None \<Rightarrow> avisoLoopLater resolve e html after (mapPlayerByUrlLater m (grp match 1))
           | Some urlMatch \<Rightarrow>
               (case decodeURIComponent e (grp urlMatch 1) of
                  None \<Rightarrow> (Inl m, after)
                | Some playerUrl \<Rightarrow>
                    avisoLoopLater resolve e html after
                      (mapPlayerByUrlLater m
                         (case resolve playerUrl of
                            None \<Rightarrow> playerUrl
                          | Some videoUrl \<Rightarrow> if videoUrl \<noteq> [] then videoUrl else playerUrl)))))"
  by pat_completeness auto

function directLoopLater :: "string \<Rightarrow> nat \<Rightarrow> players \<Rightarrow> players \<times> nat" where
  "directLoopLater html lastIndex m =
     (case rxExec IFRAME_DIRECT html lastIndex of
        (None, after) \<Rightarrow> (m, after)
      | (Some match, after) \<Rightarrow> directLoopLater html after (mapPlayerByUrlLater m (grp match 1)))"
  by pat_completeness auto

text \<open>
  \<open>extractFromPage\<close> catches what \<open>extractFromHtml\<close> throws and sets the fallback players;
  the second loop has not run then.
\<close>

definition extractFromPageLater ::
  "(string \<Rightarrow> string option) \<Rightarrow> env \<Rightarrow> string \<Rightarrow> EpisodeDetails \<Rightarrow> runtime \<Rightarrow> players \<times> runtime" where
  "extractFromPageLater resolve e html episode rt =
     (case avisoLoopLater resolve e html (avisoLastIndex rt) [] of
        (Inl m, avisoAfter) \<Rightarrow>
          (createFallbackPlayers m (epId episode), rt\<lparr>avisoLastIndex := avisoAfter\<rparr>)
      | (Inr m, avisoAfter) \<Rightarrow>
          (case directLoopLater html (directLastIndex rt) m of
             (m', directAfter) \<Rightarrow>
               (if length m' = 0 then createFallbackPlayers m' (epId episode) else m',
                \<lparr>avisoLastIndex = avisoAfter, directLastIndex = directAfter\<rparr>)))"

definition selectBestLater :: "players \<Rightarrow> string \<Rightarrow> error + string" where
  "selectBestLater m preferredServer = selectBestPlayer m (trim preferredServer)"

definition findEpisodeServerLater ::
  "(string \<Rightarrow> string option) \<Rightarrow> env \<Rightarrow> runtime \<Rightarrow> EpisodeDetails \<Rightarrow> string
     \<Rightarrow> (error + EpisodeServer) \<times> runtime" where
  "findEpisodeServerLater resolve e rt episode srv =
     (if \<not> validateEpisodeData episode then (Inl InvalidEpisodeData, rt)
      else case fetchHtml e (epUrl episode) of
        None \<Rightarrow> (Inl PageNotLoaded, rt)
      | Some html \<Rightarrow>
          if html = [] then (Inl PageNotLoaded, rt)
          else (case extractFromPageLater resolve e html episode rt of
                  (m, rt') \<Rightarrow>
                    (let selectedServer = selectedServerOf srv in
                     case selectBestLater m selectedServer of
                       Inl err \<Rightarrow> (Inl err, rt')
                     | Inr playerUrl \<Rightarrow> (Inr (buildEpisodeServer selectedServer playerUrl), rt'))))"

section \<open>The MangaLivre provider\<close>

text \<open>Names that an earlier provider already uses carry the suffix \<open>ML\<close>.\<close>

definition baseUrl :: string where "baseUrl = ''https://mangalivre.tv''"

record MangaResult =
  mangaId :: string
  mangaTitle :: string
  image :: "string option"

record ChapterDetails =
  chapterId :: string
  chapterUrl :: string
  chapterTitle :: string
  chapterLabel :: string
  chapterIndex :: nat
  language :: string

text \<open>\<^verbatim>\<open>/\/manga\/([^\/]+)\//\<close>\<close>
definition MANGA_ID :: regexp where
  "MANGA_ID = (False, Seqs [Lit ''/manga/'', Grp 1 (Rep (\<lambda>c. c \<noteq> CHR ''/'') 1 None), Chr CHR ''/''])"

definition parseSearchItem :: "node \<Rightarrow> MangaResult option" where
  "parseSearchItem element =
     (let linkElement = nodeFind element ''h2 a'' in
      if length linkElement = 0 then None
      else let href = trim (orEmpty (selAttr linkElement ''href''));
               t = trim (selText linkElement) in
        if t = [] \<or> href = [] then None
        else (case strMatch href MANGA_ID of
                None \<Rightarrow> None
              | Some idMatch \<Rightarrow>
                  if grp idMatch 1 = [] then None
                  else let imgElement = nodeFind element ''.manga__thumb img'';
                           src = trim (orEmpty (orElse (selAttr imgElement ''data-src'')
                                                       (selAttr imgElement ''src'')));
                           imageUrl = (if length imgElement > 0 \<and> src \<noteq> []
                                       then Some (if startsWith src ''//'' then ''https:'' @ src else src)
                                       else None)
                       in Some \<lparr>mangaId = grp idMatch 1, mangaTitle = t, image = imageUrl\<rparr>))"

definition searchUrlML :: "env \<Rightarrow> string \<Rightarrow> string" where
  "searchUrlML e q = baseUrl @ ''/?s='' @ encodeURIComponent e q @ ''&post_type=wp-manga''"

text \<open>
  \<open>search\<close>: the body of the \<open>try\<close> block, in which \<open>fetch\<close> and \<open>LoadDoc\<close> may throw,
  and the operation, which catches whatever is thrown and returns the empty list.
\<close>

definition searchBodyML :: "env \<Rightarrow> string \<Rightarrow> error + MangaResult list" where
  "searchBodyML e q =
     (case fetch e ''GET'' (searchUrlML e q) of
        Threw \<Rightarrow> Inl FetchError
      | Response isOk html \<Rightarrow>
          if \<not> isOk then Inr []
          else (case LoadDoc e html of
                  None \<Rightarrow> Inl LoadDocError
                | Some doc \<Rightarrow> Inr (List.map_filter parseSearchItem (doc ''.search-lists .manga__item''))))"

definition searchML :: "env \<Rightarrow> string \<Rightarrow> MangaResult list" where
  "searchML e q = catchEmpty (searchBodyML e q)"

text \<open>
  \<^verbatim>\<open>/cap[\<close>\<open>i\<close>\<^verbatim>\<open>i]tulo\s*([\d\.,]+)/i\<close>, the first letter of the class carrying an acute accent (code
  unit \<open>0xED\<close>), and \<^verbatim>\<open>/capitulo-([\d\.,]+)/i\<close>.  Under the \<open>i\<close> flag the class also admits
  the two capital letters.
\<close>

definition isChapterChar :: "char \<Rightarrow> bool" where
  "isChapterChar c = (isDigit c \<or> c = CHR ''.'' \<or> c = CHR '','')"

definition CHAPTER_TITLE :: regexp where
  "CHAPTER_TITLE = (True, Seqs [Lit ''cap'', Cls (\<lambda>c. lowerChar c \<in> {CHR 0xED, CHR ''i''}),
      Lit ''tulo'', Rep isSpace 0 None, Grp 1 (Rep isChapterChar 1 None)])"

definition CHAPTER_HREF :: regexp where
  "CHAPTER_HREF = (True, Seq (Lit ''capitulo-'') (Grp 1 (Rep isChapterChar 1 None)))"

definition parseChapter :: "node \<Rightarrow> ChapterDetails option" where
  "parseChapter element =
     (let linkElement = nodeFind element ''a'' in
      if length linkElement = 0 then None
      else let t = trim (selText linkElement);
               href = trim (orEmpty (selAttr linkElement ''href'')) in
        if t \<noteq> [] \<and> href \<noteq> [] then
          (case (case strMatch t CHAPTER_TITLE of
                   Some m \<Rightarrow> Some m
                 | None \<Rightarrow> strMatch href CHAPTER_HREF) of
             Some chapterMatch \<Rightarrow>
               if grp chapterMatch 1 \<noteq> []
               then Some \<lparr>chapterId = href, chapterUrl = href, chapterTitle = t,
                          chapterLabel = grp chapterMatch 1, chapterIndex = 0, language = ''pt-BR''\<rparr>
               else None
           | None \<Rightarrow> None)
        else None)"

definition parseChapters :: "node list \<Rightarrow> ChapterDetails list" where
  "parseChapters elements = List.map_filter parseChapter elements"

text \<open>
  \<open>parseFloat\<close> on a chapter label, which is made of digits, dots and commas: the
  digits before an optional dot and the digits after it; \<open>NaN\<close> (here \<open>None\<close>) when there
  is no digit in either place.  The value is the exact decimal; the source's is the
  nearest double, which orders labels of up to 15 significant digits the same way.
\<close>

definition parseFloat :: "string \<Rightarrow> rat option" where
  "parseFloat s =
     (let ds = takeWhile isDigit s;
          rest = dropWhile isDigit s;
          fs = (case rest of [] \<Rightarrow> [] | c # after \<Rightarrow> if c = CHR ''.'' then takeWhile isDigit after else [])
      in if ds = [] \<and> fs = [] then None
         else Some (of_int (foldl (\<lambda>acc c. 10 * acc + digitVal c) 0 (ds @ fs)) / 10 ^ length fs))"

definition chapterNumber :: "ChapterDetails \<Rightarrow> rat option" where
  "chapterNumber c = parseFloat (strReplaceFirst (chapterLabel c) '','' ''.'')"

text \<open>The comparator \<open>numA - numB\<close> by its sign; a \<open>NaN\<close> difference counts as zero.\<close>

definition compareChapters :: "ChapterDetails \<Rightarrow> ChapterDetails \<Rightarrow> int" where
  "compareChapters a b = (case (chapterNumber a, chapterNumber b) of
       (Some numA, Some numB) \<Rightarrow> (if numA < numB then -1 else if numB < numA then 1 else 0)
     | _ \<Rightarrow> 0)"

definition sortAndIndexChapters :: "ChapterDetails list \<Rightarrow> ChapterDetails list" where
  "sortAndIndexChapters chapters =
     (let sorted = sortCmp compareChapters chapters in
      map (\<lambda>(i, c). c\<lparr>chapterIndex := i\<rparr>) (zip [0..<length sorted] sorted))"

text \<open>\<^verbatim>\<open>/[a-zA-Z-]/.test(mangaId)\<close>\<close>
definition SLUG_CHAR :: regexp where
  "SLUG_CHAR = (False, Cls (\<lambda>c. c \<in> set ''abcdefghijklmnopqrstuvwxyzABCDEFGHIJKLMNOPQRSTUVWXYZ-''))"

definition chaptersFallback :: "env \<Rightarrow> string \<Rightarrow> error + ChapterDetails list" where
  "chaptersFallback e html =
     (case LoadDoc e html of
        None \<Rightarrow> Inl LoadDocError
      | Some doc \<Rightarrow>
          (let directElements = doc ''.listing-chapters_wrap .wp-manga-chapter'' in
           if length directElements > 0 then Inr (sortAndIndexChapters (parseChapters directElements))
           else Inr []))"

definition findChaptersBody :: "env \<Rightarrow> string \<Rightarrow> error + ChapterDetails list" where
  "findChaptersBody e mid =
     (if strMatch mid SLUG_CHAR = None then Inr []
      else let mangaUrl = baseUrl @ ''/manga/'' @ mid @ ''/'' in
        case fetch e ''GET'' mangaUrl of
          Threw \<Rightarrow> Inl FetchError
        | Response isOk html \<Rightarrow>
            if \<not> isOk then Inr []
            else (case fetch e ''POST'' (baseUrl @ ''/manga/'' @ mid @ ''/ajax/chapters/'') of
                    Threw \<Rightarrow> Inl FetchError
                  | Response ajaxOk chaptersHtml \<Rightarrow>
                      if ajaxOk then
                        (case LoadDoc e chaptersHtml of
                           None \<Rightarrow> Inl LoadDocError
                         | Some chaptersDoc \<Rightarrow>
                             (let elements = chaptersDoc ''.wp-manga-chapter'' in
                              if length elements > 0
                              then Inr (sortAndIndexChapters (parseChapters elements))
                              else chaptersFallback e html))
                      else chaptersFallback e html))"

text \<open>\<open>findChapters\<close> catches whatever its body throws and returns the empty list.\<close>

definition findChapters :: "env \<Rightarrow> string \<Rightarrow> ChapterDetails list" where
  "findChapters e mid = catchEmpty (findChaptersBody e mid)"

subsection \<open>Settings and the pages of a chapter\<close>








section \<open>The AnimesROLL provider\<close>

text \<open>
  Of this provider, the search first.  The body of the response is JSON; \<open>response.json()\<close>,
  read at the type \<open>SearchResultsDto\<close>, is the parameter \<open>decode\<close>, which is \<open>None\<close> when
  the parser throws.
\<close>

definition anrollBaseUrl :: string where "anrollBaseUrl = ''https://www.anroll.net''"
definition oldApiUrl :: string where "oldApiUrl = ''https://apiv2-prd.anroll.net''"

record AnimeDataDto =
  titulo :: "string option"
  nome_filme :: "string option"
  slug_serie :: "string option"
  generate_id :: string

record SearchResultsDto =
  data_anime :: "AnimeDataDto list option"
  data_filme :: "AnimeDataDto list option"

definition orNil :: "'a list option \<Rightarrow> 'a list" where
  "orNil v = (case v of None \<Rightarrow> [] | Some xs \<Rightarrow> xs)"

definition searchItemAnroll :: "AnimeDataDto \<Rightarrow> SearchResult" where
  "searchItemAnroll item =
     (let isMovie = \<not> truthy (slug_serie item);
          t = orEmpty (orElse (titulo item) (nome_filme item));
          i = (if isMovie then ''f/'' @ generate_id item else ''anime/'' @ orEmpty (slug_serie item))
      in \<lparr>resultId = i, resultTitle = t, resultUrl = anrollBaseUrl @ ''/'' @ i, subOrDub = ''sub''\<rparr>)"

definition searchQueryOf :: "AnimeSearchOptions \<Rightarrow> string" where
  "searchQueryOf opts =
     (if query opts \<noteq> [] then query opts
      else orEmpty (orElse (romajiTitle (media opts)) (englishTitle (media opts))))"

definition searchUrlAnroll :: "env \<Rightarrow> AnimeSearchOptions \<Rightarrow> string" where
  "searchUrlAnroll e opts = oldApiUrl @ ''/search?q='' @ encodeURIComponent e (searchQueryOf opts)"

definition searchBodyAnroll ::
  "(string \<Rightarrow> SearchResultsDto option) \<Rightarrow> env \<Rightarrow> AnimeSearchOptions \<Rightarrow> error + SearchResult list" where
  "searchBodyAnroll decode e opts =
     (case fetch e ''GET'' (searchUrlAnroll e opts) of
        Threw \<Rightarrow> Inl FetchError
      | Response isOk text \<Rightarrow>
          if \<not> isOk then Inr []
          else (case decode text of
                  None \<Rightarrow> Inl JsonError
                | Some data \<Rightarrow>
                    Inr (map searchItemAnroll (orNil (data_anime data) @ orNil (data_filme data)))))"

definition searchAnroll ::
  "(string \<Rightarrow> SearchResultsDto option) \<Rightarrow> env \<Rightarrow> AnimeSearchOptions \<Rightarrow> SearchResult list" where
  "searchAnroll decode e opts = catchEmpty (searchBodyAnroll decode e opts)"

subsection \<open>Settings, episodes and the server of an episode\<close>




record AnimeDetailsDto = AnimeDataDto +
  od :: "string option"

datatype pageData = AnimeData AnimeDetailsDto | MovieInfo AnimeDetailsDto

record EpisodeDto =
  n_episodio :: string

record EpisodeListDto =
  listData :: "EpisodeDto list option"
  totalOfPages :: "int option"

text \<open>
  The JSON parser, read at the types of the source.  \<open>parseNext s\<close> is
  \<^verbatim>\<open>JSON.parse(s).props?.pageProps?.data\<close> and \<open>parsePageProps s\<close> is \<^verbatim>\<open>JSON.parse(s).data\<close>:
  \<open>None\<close> when the expression throws, \<open>Some None\<close> when it is \<open>undefined\<close>.
  \<open>episodeList\<close> is \<open>response.json()\<close> at the type \<open>EpisodeListDto\<close>, where \<open>totalOfPages\<close>
  is \<open>None\<close> when the object has no \<open>meta\<close>; \<open>searchResults\<close> is the parameter of
  \<open>searchAnroll\<close>.
\<close>

record json =
  searchResults :: "string \<Rightarrow> SearchResultsDto option"
  parseNext :: "string \<Rightarrow> pageData option option"
  parsePageProps :: "string \<Rightarrow> pageData option option"
  episodeList :: "string \<Rightarrow> EpisodeListDto option"




















section \<open>Definitions that follow the specification\<close>

subsection \<open>Episode number\<close>

text \<open>
  A pattern strategy succeeds with the number captured in group \<open>i\<close> of the pattern's
  match when that number is between 1 and 9999.
\<close>

definition spec_patternEpisode :: "string \<Rightarrow> regexp \<Rightarrow> nat \<Rightarrow> int option" where
  "spec_patternEpisode text pattern i =
     (case strMatch text pattern of
        None \<Rightarrow> None
      | Some m \<Rightarrow> (case parseInt (grp m i) of
           None \<Rightarrow> None
         | Some n \<Rightarrow> if 1 \<le> n \<and> n \<le> 9999 then Some n else None))"

text \<open>
  The first isolated number of one to four digits that is between 1 and 9999, is none
  of 480, 720, 1080, and is below 2000.
\<close>

definition spec_isolatedEpisode :: "string \<Rightarrow> int option" where
  "spec_isolatedEpisode nm =
     find (\<lambda>n. 1 \<le> n \<and> n \<le> 9999 \<and> n \<notin> {480, 720, 1080} \<and> n < 2000)
          (List.map_filter parseInt (map whole (strMatchAll nm EPISODE_NUMBER)))"

text \<open>The value of the first strategy that succeeds, \<open>-1\<close> when none does.\<close>

definition spec_firstSuccess :: "int option list \<Rightarrow> int" where
  "spec_firstSuccess rs = (case find (\<lambda>r. r \<noteq> None) rs of Some (Some n) \<Rightarrow> n | _ \<Rightarrow> -1)"

definition spec_extractEpisodeNumber :: "string \<Rightarrow> string \<Rightarrow> int" where
  "spec_extractEpisodeNumber nm episodeTitle =
     (if isBatchTorrent nm episodeTitle then -1
      else spec_firstSuccess
        [spec_patternEpisode episodeTitle PORTUGUESE 1,
         spec_patternEpisode nm EPISODE_DASH 1,
         spec_patternEpisode nm SEASON_EPISODE 2,
         spec_patternEpisode nm ENGLISH 1,
         spec_isolatedEpisode nm])"

subsection \<open>Batch detection\<close>

text \<open>Every match of an expression in a string: at every position, in every way.\<close>

fun rxEverywhere :: "bool \<Rightarrow> rx \<Rightarrow> char option \<Rightarrow> string \<Rightarrow> rmatch list" where
  "rxEverywhere ci r p [] = map (mkMatch []) (rxRun ci r (p, [], Map.empty))"
| "rxEverywhere ci r p (x # xs) =
     map (mkMatch (x # xs)) (rxRun ci r (p, x # xs, Map.empty)) @ rxEverywhere ci r (Some x) xs"

text \<open>The test of a range: its end above its start, the start at least 1, the end at most 999.\<close>

definition spec_rangeOk :: "rmatch \<Rightarrow> bool" where
  "spec_rangeOk m = (case (parseInt (grp m 1), parseInt (grp m 2)) of
       (Some s, Some e) \<Rightarrow> s < e \<and> 1 \<le> s \<and> e \<le> 999
     | _ \<Rightarrow> False)"

text \<open>The name contains an episode range that passes the test, anywhere.\<close>

definition spec_containsBatchRange :: "string \<Rightarrow> bool" where
  "spec_containsBatchRange nm =
     list_ex spec_rangeOk (rxEverywhere (fst EPISODE_RANGE) (snd EPISODE_RANGE) None nm)"

text \<open>The leftmost episode range of the name passes the test.\<close>

definition spec_leftmostRangeOk :: "string \<Rightarrow> bool" where
  "spec_leftmostRangeOk nm =
     (case strMatch nm EPISODE_RANGE of None \<Rightarrow> False | Some m \<Rightarrow> spec_rangeOk m)"

definition spec_seasonOnly :: "string \<Rightarrow> bool" where
  "spec_seasonOnly nm = (strMatch (toLowerCase nm) SEASON_ONLY \<noteq> None
     \<and> strMatch (toLowerCase nm) SEASON_WITH_EPISODE = None)"

definition spec_isBatchTorrent :: "string \<Rightarrow> string \<Rightarrow> bool" where
  "spec_isBatchTorrent nm episodeTitle =
     (includesStr (toLowerCase nm) ''batch'' \<or> includesStr (toLowerCase nm) ''complete''
      \<or> includesStr (toLowerCase episodeTitle) ''~''
      \<or> spec_containsBatchRange nm \<or> spec_seasonOnly nm)"

subsection \<open>Anime page\<close>



subsection \<open>Search results and players of Q1N\<close>

text \<open>The results that the elements of one container selector give.\<close>

definition spec_selectorResults :: "document \<Rightarrow> string \<Rightarrow> SearchResult list" where
  "spec_selectorResults doc sel = List.map_filter parseSearchResultElement (doc sel)"

text \<open>
  The entry of the requested server, else that of \<open>chplay\<close>, else that of \<open>ruplay\<close>, else
  the first entry of the map.
\<close>

definition spec_selectPlayer :: "players \<Rightarrow> string \<Rightarrow> string option" where
  "spec_selectPlayer m srv =
     (case map_of m srv of Some u \<Rightarrow> Some u | None \<Rightarrow>
      case map_of m ''chplay'' of Some u \<Rightarrow> Some u | None \<Rightarrow>
      case map_of m ''ruplay'' of Some u \<Rightarrow> Some u | None \<Rightarrow>
      (case m of [] \<Rightarrow> None | kv # _ \<Rightarrow> Some (snd kv)))"

definition spec_requested :: "string \<Rightarrow> string" where
  "spec_requested srv = (if srv = ''default'' \<or> srv = [] then ''chplay'' else srv)"

subsection \<open>Chapters\<close>

text \<open>The numeric value of a chapter label, where it has one.\<close>

definition spec_chapterValue :: "ChapterDetails \<Rightarrow> rat" where
  "spec_chapterValue c = the (chapterNumber c)"

subsection \<open>The operations of the providers\<close>








section \<open>Sample inputs\<close>

text \<open>A torrent object with nothing filled in, as a test of the host would pass.\<close>

definition emptyTorrent :: AnimeTorrent where
  "emptyTorrent = \<lparr>name = [], date = [], torrentSize = 0, formattedSize = [], seeders = 0,
     leechers = 0, downloadCount = 0, link = [], downloadUrl = [], magnetLink = None,
     infoHash = None, resolution = [], isBatch = False, episodeNumber = 0, releaseGroup = [],
     isBestRelease = False, confirmed = False\<rparr>"

text \<open>
  A small site: the search page for \<open>naruto\<close> links to one anime page, whose document
  has one \<open>div.soraddl\<close> block with two rows.
\<close>

definition quoted :: "string \<Rightarrow> string" where
  "quoted s = [CHR 0x22] @ s @ [CHR 0x22]"

definition anchor :: "string \<Rightarrow> string \<Rightarrow> string" where
  "anchor u t = ''<a href='' @ quoted u @ '' title='' @ quoted t @ ''>''"

definition sampleSearchPage :: string where
  "sampleSearchPage = anchor ''https://darkmahou.org/naruto/'' ''Naruto''"

definition sampleMagnet :: string where
  "sampleMagnet = ''magnet:?xt=urn:btih:0123456789abcdef0123456789ABCDEF01234567''"

definition leaf :: "string \<Rightarrow> (string \<Rightarrow> string option) \<Rightarrow> node" where
  "leaf t attrs = Node t attrs (\<lambda>_. None) (\<lambda>_. [])"

definition sampleRow :: "string \<Rightarrow> string \<Rightarrow> node" where
  "sampleRow res magnet = Node [] (\<lambda>_. None) (\<lambda>_. None)
     (\<lambda>q. if q = ''td.reso'' then [leaf res (\<lambda>_. None)]
          else if q = ''td div.slink a''
            then [leaf ''Magnet'' (\<lambda>a. if a = ''href'' then Some magnet else None)]
          else [])"

definition sampleBlock :: node where
  "sampleBlock = Node [] (\<lambda>_. None) (\<lambda>_. None)
     (\<lambda>q. if q = ''h3'' then [leaf '' Naruto - 05 '' (\<lambda>_. None)]
          else if q = ''div.content table tbody tr''
            then [sampleRow ''>> 1080p'' sampleMagnet, sampleRow ''720p'' ''#'']
          else [])"

definition sampleDoc :: document where
  "sampleDoc = (\<lambda>q. if q = ''div.soraddl'' then [sampleBlock] else [])"

definition sampleEnv :: "string \<Rightarrow> env" where
  "sampleEnv clock =
     \<lparr>fetch = (\<lambda>m u. if u = ''https://darkmahou.org/?s=naruto'' then Response True sampleSearchPage
                     else if u = ''https://darkmahou.org/naruto/'' then Response True ''<html/>''
                     else Threw),
      LoadDoc = (\<lambda>html. if html = ''<html/>'' then Some sampleDoc else None),
      now = (\<lambda>k. clock),
      encodeURIComponent = (\<lambda>s. s),
      decodeURIComponent = Some\<rparr>"

definition narutoOptions :: AnimeSmartSearchOptions where
  "narutoOptions = \<lparr>media = \<lparr>romajiTitle = Some ''Naruto'', englishTitle = None\<rparr>,
     query = ''naruto'', batch = False, optEpisodeNumber = 5, optResolution = ''1080p''\<rparr>"


text \<open>A search page of Q1N whose only results stand in \<open>article\<close> elements.\<close>

definition sampleSearchDoc :: document where
  "sampleSearchDoc = (\<lambda>q. if q = ''article''
     then [Node [] (\<lambda>_. None) (\<lambda>_. None)
             (\<lambda>s. if s = ''h3'' then [leaf '' Naruto '' (\<lambda>_. None)]
                  else if s = ''a'' then [leaf [] (\<lambda>a. if a = ''href'' then Some ''/animes/naruto/'' else None)]
                  else [])]
     else [])"

text \<open>An episode page with one frame of the \<open>chplay\<close> player, and a site that serves it.\<close>

definition samplePlayerDoc :: document where
  "samplePlayerDoc = (\<lambda>q. if q = ''iframe''
     then [leaf [] (\<lambda>a. if a = ''src'' then Some ''https://chplay.net/v/1'' else None)]
     else [])"

definition sampleEnvQ1N :: env where
  "sampleEnvQ1N =
     \<lparr>fetch = (\<lambda>m u. if u = ''https://q1n.net/episodio/x-episodio-1/'' then Response True ''<html/>''
                     else Threw),
      LoadDoc = (\<lambda>html. Some samplePlayerDoc),
      now = (\<lambda>k. []),
      encodeURIComponent = (\<lambda>s. s),
      decodeURIComponent = Some\<rparr>"

definition sampleEpisode :: EpisodeDetails where
  "sampleEpisode = \<lparr>epId = ''x-episodio-1'', epNumber = 1,
     epUrl = ''https://q1n.net/episodio/x-episodio-1/'', epTitle = ''Episode 1''\<rparr>"

text \<open>
  A manga whose chapter list, as the AJAX endpoint serves it, has three entries; the
  label of the second one is a lone dot.
\<close>

definition chapterNode :: "string \<Rightarrow> string \<Rightarrow> node" where
  "chapterNode t href = Node [] (\<lambda>_. None) (\<lambda>_. None)
     (\<lambda>q. if q = ''a'' then [leaf t (\<lambda>a. if a = ''href'' then Some href else None)] else [])"

definition sampleChapterDoc :: document where
  "sampleChapterDoc = (\<lambda>q. if q = ''.wp-manga-chapter''
     then [chapterNode ''Capitulo 2'' ''/c/2/'', chapterNode ''Capitulo .'' ''/c/x/'',
           chapterNode ''Capitulo 1'' ''/c/1/'']
     else [])"

definition sampleEnvML :: env where
  "sampleEnvML =
     \<lparr>fetch = (\<lambda>m u. Response True ''<html/>''),
      LoadDoc = (\<lambda>html. Some sampleChapterDoc),
      now = (\<lambda>k. []),
      encodeURIComponent = (\<lambda>s. s),
      decodeURIComponent = Some\<rparr>"

text \<open>A host without network: every request throws.  And a site that answers 503.\<close>

definition offlineEnv :: env where
  "offlineEnv = \<lparr>fetch = (\<lambda>m u. Threw), LoadDoc = (\<lambda>html. None), now = (\<lambda>k. []),
     encodeURIComponent = (\<lambda>s. s), decodeURIComponent = Some\<rparr>"

definition unavailableEnv :: env where
  "unavailableEnv = \<lparr>fetch = (\<lambda>m u. Response False ''Service Unavailable''),
     LoadDoc = (\<lambda>html. None), now = (\<lambda>k. []),
     encodeURIComponent = (\<lambda>s. s), decodeURIComponent = Some\<rparr>"





text \<open>
  Two episode pages for the later form of the refactored provider: one whose warning
  frame has a \<open>url\<close> parameter that cannot be decoded, and one whose warning frame has
  no such parameter.
\<close>

definition brokenPage :: string where
  "brokenPage = ''<iframe src='' @ [CHR 0x22] @ ''/aviso/?url=%'' @ [CHR 0x22] @ ''>''"

definition plainPage :: string where
  "plainPage = ''<iframe src='' @ [CHR 0x22] @ ''/aviso/x'' @ [CHR 0x22] @ ''>''"

definition brokenEpisode :: EpisodeDetails where
  "brokenEpisode = \<lparr>epId = ''naruto-2'', epNumber = 2, epUrl = ''https://q1n.net/e/2'',
     epTitle = ''Naruto 2''\<rparr>"

definition plainEpisode :: EpisodeDetails where
  "plainEpisode = \<lparr>epId = ''naruto-3'', epNumber = 3, epUrl = ''https://q1n.net/e/3'',
     epTitle = ''Naruto 3''\<rparr>"

definition sampleEnvLater :: env where
  "sampleEnvLater =
     \<lparr>fetch = (\<lambda>m u. if u = ''https://q1n.net/e/2'' then Response True brokenPage
                     else if u = ''https://q1n.net/e/3'' then Response True plainPage
                     else Threw),
      LoadDoc = (\<lambda>html. None),
      now = (\<lambda>k. []),
      encodeURIComponent = (\<lambda>s. s),
      decodeURIComponent = (\<lambda>s. if s = ''%'' then None else Some s)\<rparr>"

section \<open>Facts about the string model\<close>

lemma startsWith_prefix: "startsWith s t \<longleftrightarrow> prefix t s"
  by (induction s t rule: startsWith.induct) auto

lemma includesStr_sublist: "includesStr s t \<longleftrightarrow> sublist t s"
  by (induction s) (auto simp: startsWith_prefix sublist_Cons_right)

text \<open>What a greedy repetition leaves: it has read a run of the class of an admitted length.\<close>

lemma repStates_sound:
  "st \<in> set (repStates P lo hi k (p, s, g)) \<Longrightarrow>
     \<exists>u. s = u @ fst (snd st) \<and> list_all P u \<and> lo \<le> k + length u
        \<and> (\<forall>h. hi = Some h \<longrightarrow> k \<le> h \<longrightarrow> k + length u \<le> h) \<and> snd (snd st) = g"
proof (induction s arbitrary: k p)
  case Nil
  then show ?case by (auto split: if_splits)
next
  case (Cons x xs)
  from Cons.prems consider
      (more) "P x" "(case hi of None \<Rightarrow> True | Some h \<Rightarrow> k < h)"
             "st \<in> set (repStates P lo hi (Suc k) (Some x, xs, g))"
    | (stop) "lo \<le> k" "st = (p, x # xs, g)"
    by (auto split: if_splits)
  then show ?case
  proof cases
    case more
    from Cons.IH [OF more(3)] obtain u where u: "xs = u @ fst (snd st)" "list_all P u"
      "lo \<le> Suc k + length u" "\<forall>h. hi = Some h \<longrightarrow> Suc k \<le> h \<longrightarrow> Suc k + length u \<le> h"
      "snd (snd st) = g" by blast
    have "x # xs = (x # u) @ fst (snd st)" using u(1) by simp
    moreover have "list_all P (x # u)" using u(2) more(1) by simp
    moreover have "lo \<le> k + length (x # u)" using u(3) by simp
    moreover have "\<forall>h. hi = Some h \<longrightarrow> k \<le> h \<longrightarrow> k + length (x # u) \<le> h"
      using u(4) more(2) by (auto split: option.splits)
    ultimately show ?thesis using u(5) by blast
  next
    case stop
    then show ?thesis by auto
  qed
qed

lemma rxFind_Bol_later: "rxFind ci (Seq Bol r) (Some c) s = None"
  by (induction s arbitrary: c) auto

lemma rxRun_Eol_mem: "st \<in> set (rxRun ci Eol st') \<Longrightarrow> st = st' \<and> fst (snd st') = []"
  by (cases st') (auto split: if_splits)


section \<open>Episode numbers (C1)\<close>

lemma tryExtractFromPattern_spec:
  "tryExtractFromPattern text pattern = spec_patternEpisode text pattern 1"
  by (simp add: tryExtractFromPattern_def spec_patternEpisode_def validOrNull_def
      isValidEpisodeNumber_def MIN_EPISODE_NUMBER_def MAX_EPISODE_NUMBER_def
      split: option.splits)

lemma tryExtractFromSeasonEpisode_spec:
  "tryExtractFromSeasonEpisode nm = spec_patternEpisode nm SEASON_EPISODE 2"
  by (simp add: tryExtractFromSeasonEpisode_def spec_patternEpisode_def validOrNull_def
      isValidEpisodeNumber_def MIN_EPISODE_NUMBER_def MAX_EPISODE_NUMBER_def
      split: option.splits)

lemma firstIsolated_find:
  "firstIsolated xs =
     find (\<lambda>n. 1 \<le> n \<and> n \<le> 9999 \<and> n \<notin> {480, 720, 1080} \<and> n < 2000)
          (List.map_filter parseInt xs)"
  by (induction xs)
     (auto simp: List.map_filter_simps isValidEpisodeForIsolation_def isValidEpisodeNumber_def
        MIN_EPISODE_NUMBER_def MAX_EPISODE_NUMBER_def COMMON_RESOLUTIONS_def MAX_YEAR_def
        split: option.splits)

lemma runStrategies_firstSuccess:
  "runStrategies fs = spec_firstSuccess (map (\<lambda>f. f ()) fs)"
  by (induction fs) (auto simp: spec_firstSuccess_def split: option.splits)

text \<open>
  Claim C1.  For every name and episode title, \<open>extractEpisodeNumber\<close> returns \<open>-1\<close> for a
  batch torrent, and otherwise the value of the first strategy that succeeds, in the
  order: the Portuguese pattern in the episode title, the dash pattern in the name, the
  episode part of the season-and-episode pattern in the name, the English pattern in the
  name, the first acceptable isolated number of the name; a pattern strategy succeeds
  only with a number between 1 and 9999, and the result is \<open>-1\<close> when every strategy fails.
\<close>

theorem extractEpisodeNumber_priority:
  "extractEpisodeNumber nm episodeTitle = spec_extractEpisodeNumber nm episodeTitle"
  by (simp add: extractEpisodeNumber_def spec_extractEpisodeNumber_def
      runStrategies_firstSuccess tryExtractFromPattern_spec tryExtractFromSeasonEpisode_spec
      tryExtractFromIsolatedNumbers_def firstIsolated_find spec_isolatedEpisode_def)

text \<open>
  C1 at a name on which only the last strategy succeeds: 1080 and 720 are resolutions,
  2021 is a year, 7 is the episode.
\<close>

theorem extractEpisodeNumber_priority_witness:
  "spec_extractEpisodeNumber ''Naruto 1080 720 2021 7'' [] = 7"
proof -
  have "extractEpisodeNumber ''Naruto 1080 720 2021 7'' [] = 7" by code_simp
  then show ?thesis
    using extractEpisodeNumber_priority [of "''Naruto 1080 720 2021 7''" "[]"] by simp
qed


section \<open>Batch detection (C2)\<close>

text \<open>
  Claim C2, as stated, fails: a name may contain an episode range that passes the test
  without being a batch for \<open>isBatchTorrent\<close>, which looks at the leftmost range only.
  Here the leftmost range, 05-03, ends below its start, and the range 10-20 behind it is
  not looked at.
\<close>

theorem isBatchTorrent_range_counterexample:
  "spec_isBatchTorrent ''Naruto 05-03 10-20'' [] \<and> \<not> isBatchTorrent ''Naruto 05-03 10-20'' []"
  by code_simp

text \<open>
  Claim C2, amended.  \<open>isBatchTorrent\<close> holds exactly when the lower-cased name contains
  \<open>batch\<close> or \<open>complete\<close>, or the lower-cased episode title contains \<open>~\<close>, or the leftmost
  episode range of the name has its end above its start, its start at least 1 and its
  end at most 999, or the lower-cased name has a token \<open>s<digits>\<close> and no token
  \<open>s<digits>e<digits>\<close>; in every other case it is false, also for a name that matches the
  individual-episode pattern.
\<close>

theorem isBatchTorrent_iff:
  "isBatchTorrent nm episodeTitle \<longleftrightarrow>
     includesStr (toLowerCase nm) ''batch'' \<or> includesStr (toLowerCase nm) ''complete''
     \<or> includesStr (toLowerCase episodeTitle) ''~''
     \<or> spec_leftmostRangeOk nm \<or> spec_seasonOnly nm"
  by (auto simp: isBatchTorrent_def spec_leftmostRangeOk_def spec_seasonOnly_def spec_rangeOk_def
      rangeIsBatch_def MIN_EPISODE_NUMBER_def MAX_BATCH_EPISODES_def Let_def
      split: option.splits)

text \<open>The amended C2 at a batch (a range) and at an individual episode.\<close>

theorem isBatchTorrent_iff_witness:
  "isBatchTorrent ''Naruto 001-220 [1080p]'' [] \<and> \<not> isBatchTorrent ''[Grp] Naruto - 12 [1080p]'' []"
proof -
  have a: "spec_leftmostRangeOk ''Naruto 001-220 [1080p]''" by code_simp
  have b: "\<not> (includesStr (toLowerCase ''[Grp] Naruto - 12 [1080p]'') ''batch''
     \<or> includesStr (toLowerCase ''[Grp] Naruto - 12 [1080p]'') ''complete''
     \<or> includesStr (toLowerCase []) ''~''
     \<or> spec_leftmostRangeOk ''[Grp] Naruto - 12 [1080p]'' \<or> spec_seasonOnly ''[Grp] Naruto - 12 [1080p]'')"
    by code_simp
  show ?thesis
    using a b isBatchTorrent_iff [of "''Naruto 001-220 [1080p]''" "[]"]
      isBatchTorrent_iff [of "''[Grp] Naruto - 12 [1080p]''" "[]"] by blast
qed

section \<open>The info hash (C9)\<close>

lemma isValidInfoHash_shape:
  assumes "isValidInfoHash h"
  shows "length h = 40 \<and> list_all isHex h"
proof -
  let ?r = "Seq Bol (Seq (Rep isHex 40 (Some 40)) Eol)"
  from assms have m: "rxFind False ?r None h \<noteq> None"
    by (simp add: isValidInfoHash_def rxTest_def rxMatch_def)
  have "rxRun False ?r (None, h, Map.empty) \<noteq> []"
  proof (cases h)
    case Nil
    with m show ?thesis by (auto simp del: rxRun.simps split: list.splits)
  next
    case (Cons x xs)
    with m show ?thesis by (auto simp del: rxRun.simps simp: rxFind_Bol_later split: list.splits)
  qed
  then obtain st where "st \<in> set (rxRun False ?r (None, h, Map.empty))"
    by (meson last_in_set)
  then have "st \<in> set (concat (map (rxRun False Eol)
      (repStates isHex 40 (Some 40) 0 (None, h, Map.empty))))"
    by (simp del: repStates.simps rxRun.simps(9) add: rxRun.simps(9) [symmetric])
  then obtain st' where st': "st' \<in> set (repStates isHex 40 (Some 40) 0 (None, h, Map.empty))"
    and e: "st \<in> set (rxRun False Eol st')"
    by auto
  from rxRun_Eol_mem [OF e] have "fst (snd st') = []" by simp
  with repStates_sound [OF st'] show ?thesis by auto
qed

lemma extractInfoHash_shape:
  "extractInfoHash m = [] \<or> (length (extractInfoHash m) = 40 \<and> list_all isHex (extractInfoHash m))"
  using isValidInfoHash_shape
  by (auto simp: extractInfoHash_def split: option.splits)

text \<open>
  Claim C9, as stated, fails in its last part: a torrent that carries an info hash gets
  it back as it is, whatever its form.
\<close>

theorem getTorrentInfoHash_counterexample:
  "getTorrentInfoHash (emptyTorrent\<lparr>infoHash := Some ''abc''\<rparr>) = ''abc''
   \<and> ''abc'' \<noteq> [] \<and> ''abc'' \<noteq> EXAMPLE_HASH \<and> length ''abc'' \<noteq> 40"
  by (simp add: getTorrentInfoHash_def emptyTorrent_def truthy_def orEmpty_def EXAMPLE_HASH_def)

text \<open>
  Claim C9, amended.  For a torrent whose info hash and magnet link are both absent or
  empty, \<open>getTorrentInfoHash\<close> returns the placeholder; for one whose magnet link is present
  but holds no 40-digit \<open>btih\<close> hash and whose info hash is empty, it returns the empty
  string; a torrent's own non-empty info hash is returned unchanged; and whenever the
  torrent's info hash is absent or empty the result is empty, the placeholder, or 40
  hexadecimal digits.
\<close>

theorem getTorrentInfoHash_cases:
  "(\<not> truthy (infoHash t) \<and> \<not> truthy (magnetLink t) \<longrightarrow> getTorrentInfoHash t = EXAMPLE_HASH)
   \<and> (\<not> truthy (infoHash t) \<and> truthy (magnetLink t)
        \<and> strMatch (orEmpty (magnetLink t)) INFO_HASH = None \<longrightarrow> getTorrentInfoHash t = [])
   \<and> (truthy (infoHash t) \<longrightarrow> getTorrentInfoHash t = orEmpty (infoHash t))
   \<and> (\<not> truthy (infoHash t) \<longrightarrow>
        getTorrentInfoHash t = [] \<or> getTorrentInfoHash t = EXAMPLE_HASH
        \<or> (length (getTorrentInfoHash t) = 40 \<and> list_all isHex (getTorrentInfoHash t)))"
  using extractInfoHash_shape [of "orEmpty (magnetLink t)"]
  by (auto simp: getTorrentInfoHash_def extractInfoHash_def)

text \<open>The amended C9 at three torrents, one for each of its first three parts.\<close>

theorem getTorrentInfoHash_cases_witness:
  "getTorrentInfoHash emptyTorrent = EXAMPLE_HASH
   \<and> getTorrentInfoHash (emptyTorrent\<lparr>magnetLink := Some ''magnet:?xt=urn:btih:zz&dn=Naruto''\<rparr>) = []
   \<and> getTorrentInfoHash (emptyTorrent\<lparr>infoHash := Some ''abc''\<rparr>) = ''abc''"
proof -
  have a: "\<not> truthy (infoHash emptyTorrent) \<and> \<not> truthy (magnetLink emptyTorrent)"
    by (simp add: emptyTorrent_def truthy_def)
  let ?t = "emptyTorrent\<lparr>magnetLink := Some ''magnet:?xt=urn:btih:zz&dn=Naruto''\<rparr>"
  have b: "\<not> truthy (infoHash ?t) \<and> truthy (magnetLink ?t)
        \<and> strMatch (orEmpty (magnetLink ?t)) INFO_HASH = None"
    by code_simp
  let ?u = "emptyTorrent\<lparr>infoHash := Some ''abc''\<rparr>"
  have c: "truthy (infoHash ?u) \<and> orEmpty (infoHash ?u) = ''abc''"
    by (simp add: emptyTorrent_def truthy_def orEmpty_def)
  show ?thesis
    using a b c getTorrentInfoHash_cases [of emptyTorrent] getTorrentInfoHash_cases [of ?t]
      getTorrentInfoHash_cases [of ?u]
    by metis
qed


section \<open>Smart search (C8)\<close>

lemma filters_conj:
  "foldl (\<lambda>rs f. filter f rs) rs fs = filter (\<lambda>t. list_all (\<lambda>f. f t) fs) rs"
proof (induction fs arbitrary: rs)
  case Nil
  then show ?case by simp
next
  case (Cons f fs)
  show ?case by (simp add: Cons.IH conj_commute)
qed

lemma applySmartSearchFilters_filter:
  "applySmartSearchFilters rs opts = filter (\<lambda>t. list_all (\<lambda>f. f t) (smartFilters opts)) rs"
  by (simp add: applySmartSearchFilters_def filters_conj)

text \<open>
  Claim C8.  Whatever the search results and the options, the filtered list is a
  subsequence of the results, and the list \<open>smartSearch\<close> returns is a subsequence of what
  the underlying search returns; every torrent returned satisfies the active filters: it is a
  batch when \<open>batch\<close> is set; it has the requested episode number, or is a batch, or has
  episode number \<open>-1\<close>, when the requested number is positive; its resolution is empty or
  contains the requested one when a resolution is requested.
\<close>

theorem smartSearch_filters:
  "subseq (applySmartSearchFilters results opts) results
   \<and> subseq (smartSearch this e opts) (search this e \<lparr>media = media opts, query = smartQuery opts\<rparr>)
   \<and> (\<forall>t \<in> set (applySmartSearchFilters results opts) \<union> set (smartSearch this e opts).
        (batch opts \<longrightarrow> isBatch t)
      \<and> (optEpisodeNumber opts > 0 \<longrightarrow>
           episodeNumber t = optEpisodeNumber opts \<or> isBatch t \<or> episodeNumber t = -1)
      \<and> (optResolution opts \<noteq> [] \<longrightarrow>
           resolution t = [] \<or> includesStr (resolution t) (optResolution opts)))"
proof -
  have sat: "(batch opts \<longrightarrow> isBatch t)
      \<and> (optEpisodeNumber opts > 0 \<longrightarrow>
           episodeNumber t = optEpisodeNumber opts \<or> isBatch t \<or> episodeNumber t = -1)
      \<and> (optResolution opts \<noteq> [] \<longrightarrow>
           resolution t = [] \<or> includesStr (resolution t) (optResolution opts))"
    if "t \<in> set (applySmartSearchFilters rs opts)" for t rs
    using that by (auto simp: applySmartSearchFilters_filter smartFilters_def split: if_splits)
  have sub: "subseq (applySmartSearchFilters rs opts) rs" for rs
    by (simp add: applySmartSearchFilters_filter)
  have ss: "smartSearch this e opts = [] \<or> smartSearch this e opts =
      applySmartSearchFilters (search this e \<lparr>media = media opts, query = smartQuery opts\<rparr>) opts"
    by (simp add: smartSearch_def Let_def)
  from ss sub have "subseq (smartSearch this e opts) (search this e \<lparr>media = media opts, query = smartQuery opts\<rparr>)"
    by (metis list_emb_Nil)
  moreover from ss sat have "\<forall>t \<in> set (smartSearch this e opts). (batch opts \<longrightarrow> isBatch t)
      \<and> (optEpisodeNumber opts > 0 \<longrightarrow>
           episodeNumber t = optEpisodeNumber opts \<or> isBatch t \<or> episodeNumber t = -1)
      \<and> (optResolution opts \<noteq> [] \<longrightarrow>
           resolution t = [] \<or> includesStr (resolution t) (optResolution opts))"
    by (metis empty_iff empty_set)
  ultimately show ?thesis using sat sub by blast
qed

text \<open>
  The smart search on the sample site, asking for episode 5 in 1080p, returns one torrent,
  dated with the reading of the clock.
\<close>

lemma sample_smartSearch_value:
  "map (\<lambda>t. (date t, episodeNumber t, isBatch t, resolution t))
       (smartSearch newProvider (sampleEnv clock) narutoOptions)
     = [(clock, 5, False, ''1080p'')]"
  by code_simp

text \<open>
  C8 on the sample site, asking for episode 5 in 1080p: the search finds a torrent, and
  what is returned passes the two active filters.
\<close>

theorem smartSearch_filters_witness:
  "smartSearch newProvider (sampleEnv ''2026-01-01'') narutoOptions \<noteq> []
   \<and> list_all (\<lambda>t. (episodeNumber t = 5 \<or> isBatch t \<or> episodeNumber t = -1)
                    \<and> (resolution t = [] \<or> includesStr (resolution t) ''1080p''))
        (smartSearch newProvider (sampleEnv ''2026-01-01'') narutoOptions)"
proof -
  note T = smartSearch_filters [of "[]" narutoOptions newProvider "sampleEnv ''2026-01-01''"]
  have ne: "smartSearch newProvider (sampleEnv ''2026-01-01'') narutoOptions \<noteq> []"
    using sample_smartSearch_value [of "''2026-01-01''"] by auto
  have o: "optEpisodeNumber narutoOptions > 0" "optEpisodeNumber narutoOptions = 5"
    "optResolution narutoOptions \<noteq> []" "optResolution narutoOptions = ''1080p''"
    by (simp_all add: narutoOptions_def)
  from T have "\<forall>t \<in> set (smartSearch newProvider (sampleEnv ''2026-01-01'') narutoOptions).
      (optEpisodeNumber narutoOptions > 0 \<longrightarrow>
           episodeNumber t = optEpisodeNumber narutoOptions \<or> isBatch t \<or> episodeNumber t = -1)
      \<and> (optResolution narutoOptions \<noteq> [] \<longrightarrow>
           resolution t = [] \<or> includesStr (resolution t) (optResolution narutoOptions))"
    by blast
  with o(1,3) have "\<forall>t \<in> set (smartSearch newProvider (sampleEnv ''2026-01-01'') narutoOptions).
      (episodeNumber t = optEpisodeNumber narutoOptions \<or> isBatch t \<or> episodeNumber t = -1)
      \<and> (resolution t = [] \<or> includesStr (resolution t) (optResolution narutoOptions))"
    by blast
  then show ?thesis using ne unfolding o(2,4) list_all_iff by blast
qed

section \<open>The anime page of a query (C3)\<close>








lemma shouldSkipURL_iff: "shouldSkipURL u \<longleftrightarrow> (\<exists>p \<in> set EXCLUDED_URL_PATTERNS. includesStr u p)"
  by (simp add: shouldSkipURL_def list_ex_iff)






section \<open>Search results of Q1N (C4)\<close>

lemma extractUrlFromSelectors_animes:
  "extractUrlFromSelectors element sels = [] \<or> includesStr (extractUrlFromSelectors element sels) ''/animes/''"
  by (induction sels) (auto simp: Let_def)

lemma parseSearchResultElement_valid:
  "parseSearchResultElement element = Some r \<Longrightarrow>
     resultTitle r \<noteq> [] \<and> includesStr (resultUrl r) ''/animes/''"
  using extractUrlFromSelectors_animes [of element SEARCH_URLS]
  by (auto simp: parseSearchResultElement_def Let_def split: if_splits)

lemma searchLoop_none:
  "\<forall>s \<in> set cs. spec_selectorResults doc s = [] \<Longrightarrow> searchLoop doc [] cs = ([], cs)"
  by (induction cs) (auto simp: spec_selectorResults_def)

lemma searchLoop_first:
  "i < length cs \<Longrightarrow> spec_selectorResults doc (cs ! i) \<noteq> [] \<Longrightarrow>
   \<forall>j < i. spec_selectorResults doc (cs ! j) = [] \<Longrightarrow>
   searchLoop doc [] cs = (spec_selectorResults doc (cs ! i), take (Suc i) cs)"
proof (induction cs arbitrary: i)
  case Nil
  then show ?case by simp
next
  case (Cons c cs)
  show ?case
  proof (cases i)
    case 0
    with Cons.prems show ?thesis by (simp add: spec_selectorResults_def)
  next
    case (Suc k)
    with Cons.prems have c: "spec_selectorResults doc c = []" by auto
    from Suc Cons.prems have "k < length cs" "spec_selectorResults doc (cs ! k) \<noteq> []"
      "\<forall>j < k. spec_selectorResults doc (cs ! j) = []" by auto
    from Cons.IH [OF this] c Suc show ?thesis by (simp add: spec_selectorResults_def)
  qed
qed

text \<open>
  Claim C4.  The parser of the search results passes the container selectors to the
  document in the fixed order.  When a selector gives at least one valid result and no
  selector before it gives any, the parser returns the results of that selector, and the
  selectors it has consulted are those up to that one: no later selector is consulted.
  When no selector gives a result, the parser returns the empty list.  A valid result has
  a non-empty title and a URL that contains \<open>/animes/\<close>.
\<close>

theorem parseSearchResults_first_selector:
  "SEARCH_CONTAINERS = [''.items .item'', ''.result .item'', ''.search-result .item'',
      ''article'', ''.post'', ''.anime-item'']
   \<and> (\<forall>i < length SEARCH_CONTAINERS.
         spec_selectorResults doc (SEARCH_CONTAINERS ! i) \<noteq> []
         \<and> (\<forall>j < i. spec_selectorResults doc (SEARCH_CONTAINERS ! j) = []) \<longrightarrow>
         parseSearchResults doc = spec_selectorResults doc (SEARCH_CONTAINERS ! i)
         \<and> consultedSelectors doc = take (Suc i) SEARCH_CONTAINERS)
   \<and> ((\<forall>s \<in> set SEARCH_CONTAINERS. spec_selectorResults doc s = []) \<longrightarrow>
         parseSearchResults doc = [] \<and> consultedSelectors doc = SEARCH_CONTAINERS)
   \<and> (\<forall>r \<in> set (parseSearchResults doc).
         resultTitle r \<noteq> [] \<and> includesStr (resultUrl r) ''/animes/'')
   \<and> (\<forall>s \<in> set SEARCH_CONTAINERS. \<forall>r \<in> set (spec_selectorResults doc s).
         resultTitle r \<noteq> [] \<and> includesStr (resultUrl r) ''/animes/'')"
proof (intro conjI allI impI ballI)
  show "SEARCH_CONTAINERS = [''.items .item'', ''.result .item'', ''.search-result .item'',
      ''article'', ''.post'', ''.anime-item'']"
    by (simp add: SEARCH_CONTAINERS_def)
next
  fix i
  assume "i < length SEARCH_CONTAINERS"
    and "spec_selectorResults doc (SEARCH_CONTAINERS ! i) \<noteq> []
         \<and> (\<forall>j < i. spec_selectorResults doc (SEARCH_CONTAINERS ! j) = [])"
  then have "searchLoop doc [] SEARCH_CONTAINERS =
      (spec_selectorResults doc (SEARCH_CONTAINERS ! i), take (Suc i) SEARCH_CONTAINERS)"
    by (intro searchLoop_first) auto
  then show "parseSearchResults doc = spec_selectorResults doc (SEARCH_CONTAINERS ! i)"
    and "consultedSelectors doc = take (Suc i) SEARCH_CONTAINERS"
    by (simp_all add: parseSearchResults_def consultedSelectors_def)
next
  assume "\<forall>s \<in> set SEARCH_CONTAINERS. spec_selectorResults doc s = []"
  from searchLoop_none [OF this]
  show "parseSearchResults doc = []" and "consultedSelectors doc = SEARCH_CONTAINERS"
    by (simp_all add: parseSearchResults_def consultedSelectors_def)
next
  fix s r
  assume "r \<in> set (spec_selectorResults doc s)"
  then obtain el where "parseSearchResultElement el = Some r"
    by (auto simp: spec_selectorResults_def List.map_filter_def split: option.splits)
  from parseSearchResultElement_valid [OF this]
  show "resultTitle r \<noteq> []" and "includesStr (resultUrl r) ''/animes/''" by simp_all
next
  fix r
  assume r: "r \<in> set (parseSearchResults doc)"
  have "\<exists>s. parseSearchResults doc = spec_selectorResults doc s \<or> parseSearchResults doc = []"
  proof (cases "\<forall>s \<in> set SEARCH_CONTAINERS. spec_selectorResults doc s = []")
    case True
    from searchLoop_none [OF this] show ?thesis by (simp add: parseSearchResults_def)
  next
    case False
    then obtain i where i: "i < length SEARCH_CONTAINERS"
      "spec_selectorResults doc (SEARCH_CONTAINERS ! i) \<noteq> []"
      by (auto simp: in_set_conv_nth)
    define k where "k = (LEAST i. i < length SEARCH_CONTAINERS
        \<and> spec_selectorResults doc (SEARCH_CONTAINERS ! i) \<noteq> [])"
    have k: "k < length SEARCH_CONTAINERS \<and> spec_selectorResults doc (SEARCH_CONTAINERS ! k) \<noteq> []"
      unfolding k_def by (rule LeastI [of _ i]) (use i in simp)
    have m: "\<forall>j < k. spec_selectorResults doc (SEARCH_CONTAINERS ! j) = []"
    proof (intro allI impI)
      fix j assume "j < k"
      then have "\<not> (j < length SEARCH_CONTAINERS
          \<and> spec_selectorResults doc (SEARCH_CONTAINERS ! j) \<noteq> [])"
        unfolding k_def by (rule not_less_Least)
      moreover from \<open>j < k\<close> k have "j < length SEARCH_CONTAINERS" by simp
      ultimately show "spec_selectorResults doc (SEARCH_CONTAINERS ! j) = []" by simp
    qed
    from searchLoop_first [OF _ _ m] k show ?thesis by (auto simp: parseSearchResults_def)
  qed
  with r obtain s where "r \<in> set (spec_selectorResults doc s)" by auto
  then obtain el where "parseSearchResultElement el = Some r"
    by (auto simp: spec_selectorResults_def List.map_filter_def split: option.splits)
  from parseSearchResultElement_valid [OF this]
  show "resultTitle r \<noteq> []" and "includesStr (resultUrl r) ''/animes/''" by simp_all
qed

text \<open>
  C4 on a page whose results stand in \<open>article\<close> elements, the fourth selector: the three
  selectors before it give nothing, and the two after it are not consulted.
\<close>

theorem parseSearchResults_first_selector_witness:
  "map resultTitle (parseSearchResults sampleSearchDoc) = [''Naruto'']
   \<and> consultedSelectors sampleSearchDoc = [''.items .item'', ''.result .item'', ''.search-result .item'', ''article'']"
proof -
  have a: "map resultTitle (spec_selectorResults sampleSearchDoc ''article'') = [''Naruto'']"
    by code_simp
  have n: "spec_selectorResults sampleSearchDoc ''.items .item'' = []"
    "spec_selectorResults sampleSearchDoc ''.result .item'' = []"
    "spec_selectorResults sampleSearchDoc ''.search-result .item'' = []"
    by (simp_all add: spec_selectorResults_def sampleSearchDoc_def List.map_filter_simps)
  have l: "(3::nat) < length SEARCH_CONTAINERS" and c: "SEARCH_CONTAINERS ! 3 = ''article''"
    by (simp_all add: SEARCH_CONTAINERS_def)
  have b: "\<forall>j < (3::nat). spec_selectorResults sampleSearchDoc (SEARCH_CONTAINERS ! j) = []"
  proof (intro allI impI)
    fix j :: nat assume "j < 3"
    then consider "j = 0" | "j = 1" | "j = 2" by linarith
    then show "spec_selectorResults sampleSearchDoc (SEARCH_CONTAINERS ! j) = []"
      by cases (simp_all add: SEARCH_CONTAINERS_def n)
  qed
  from a have ne: "spec_selectorResults sampleSearchDoc (SEARCH_CONTAINERS ! 3) \<noteq> []"
    unfolding c by auto
  from parseSearchResults_first_selector [of sampleSearchDoc] l ne b
  have "parseSearchResults sampleSearchDoc = spec_selectorResults sampleSearchDoc (SEARCH_CONTAINERS ! 3)
        \<and> consultedSelectors sampleSearchDoc = take (Suc 3) SEARCH_CONTAINERS"
    by blast
  with a c show ?thesis by (simp add: SEARCH_CONTAINERS_def)
qed


section \<open>The server of an episode (C5)\<close>

lemma mapSet_values: "\<forall>kv \<in> set m. snd kv \<noteq> [] \<Longrightarrow> v \<noteq> [] \<Longrightarrow> \<forall>kv \<in> set (mapSet m k v). snd kv \<noteq> []"
  by (induction m k v rule: mapSet.induct) auto

lemma iframes_values:
  "\<forall>kv \<in> set m. snd kv \<noteq> [] \<Longrightarrow> \<forall>kv \<in> set (extractPlayersFromIframes ns m). snd kv \<noteq> []"
proof (induction ns arbitrary: m)
  case Nil
  then show ?case by simp
next
  case (Cons n ns)
  show ?case
  proof (cases "truthy (nodeAttr n ''src'') \<and> trim (orEmpty (nodeAttr n ''src'')) \<noteq> []
      \<and> \<not> includesStr (orEmpty (nodeAttr n ''src'')) ''about:blank''")
    case True
    then have "orEmpty (nodeAttr n ''src'') \<noteq> []"
      by (auto simp: truthy_def orEmpty_def split: option.splits)
    from mapSet_values [OF Cons.prems this]
    have "\<forall>kv \<in> set (mapSet m (iframeKey (orEmpty (nodeAttr n ''src''))) (orEmpty (nodeAttr n ''src''))). snd kv \<noteq> []" .
    from Cons.IH [OF this] True show ?thesis by (simp add: Let_def)
  next
    case False
    with Cons.IH [OF Cons.prems] show ?thesis by (auto simp: Let_def)
  qed
qed

lemma truthy_orEmpty: "truthy v \<Longrightarrow> orEmpty v \<noteq> []"
  by (auto simp: truthy_def orEmpty_def split: option.splits)

lemma elements_values:
  "\<forall>kv \<in> set m. snd kv \<noteq> [] \<Longrightarrow> \<forall>kv \<in> set (extractPlayersFromElements ns m). snd kv \<noteq> []"
proof (induction ns arbitrary: m)
  case Nil
  then show ?case by simp
next
  case (Cons n ns)
  let ?t = "trim (toLowerCase (nodeText n))"
  consider (p) "?t \<in> set SUPPORTED_SERVERS" "truthy (parentAttr n ''href'')"
    | (o) "?t \<in> set SUPPORTED_SERVERS" "\<not> truthy (parentAttr n ''href'')" "truthy (nodeAttr n ''href'')"
    | (n) "\<not> (?t \<in> set SUPPORTED_SERVERS \<and> (truthy (parentAttr n ''href'') \<or> truthy (nodeAttr n ''href'')))"
    by blast
  then show ?case
  proof cases
    case p
    from mapSet_values [OF Cons.prems truthy_orEmpty [OF p(2)]]
    have "\<forall>kv \<in> set (mapSet m ?t (orEmpty (parentAttr n ''href''))). snd kv \<noteq> []" .
    from Cons.IH [OF this] p show ?thesis by (simp add: Let_def)
  next
    case o
    from mapSet_values [OF Cons.prems truthy_orEmpty [OF o(3)]]
    have "\<forall>kv \<in> set (mapSet m ?t (orEmpty (nodeAttr n ''href''))). snd kv \<noteq> []" .
    from Cons.IH [OF this] o show ?thesis by (simp add: Let_def)
  next
    case n
    with Cons.IH [OF Cons.prems] show ?thesis by (auto simp: Let_def)
  qed
qed

lemma extractPlayers_values:
  "\<forall>kv \<in> set (extractPlayersFromPage doc episode). snd kv \<noteq> []"
proof -
  let ?m = "extractPlayersFromElements (doc PLAYER_ELEMENTS) (extractPlayersFromIframes (doc IFRAMES) [])"
  have a: "\<forall>kv \<in> set ?m. snd kv \<noteq> []"
    by (rule elements_values, rule iframes_values) simp
  show ?thesis
  proof (cases "?m = []")
    case True
    then show ?thesis
      by (simp add: extractPlayersFromPage_def createFallbackPlayers_def SUPPORTED_SERVERS_def API_BASE_def)
  next
    case False
    with a show ?thesis by (simp add: extractPlayersFromPage_def)
  qed
qed

lemma extractPlayers_nonempty: "extractPlayersFromPage doc episode \<noteq> []"
  by (auto simp: extractPlayersFromPage_def createFallbackPlayers_def SUPPORTED_SERVERS_def Let_def)

lemma map_of_truthy:
  "truthy (map_of m k) \<longleftrightarrow> map_of m k \<noteq> None" if "\<forall>kv \<in> set m. snd kv \<noteq> []"
proof (cases "map_of m k")
  case None
  then show ?thesis by (simp add: truthy_def)
next
  case (Some v)
  then have "(k, v) \<in> set m" by (rule map_of_SomeD)
  with that have "v \<noteq> []" by fastforce
  with Some show ?thesis by (simp add: truthy_def)
qed

lemma selectBestPlayer_chain:
  assumes "\<forall>kv \<in> set m. snd kv \<noteq> []"
  shows "selectBestPlayer m srv =
     (case spec_selectPlayer m srv of
        None \<Rightarrow> Inl NoVideoSource
      | Some u \<Rightarrow> if includesStr u ''about:blank'' then Inl NoVideoSource else Inr u)"
proof -
  have f: "truthy (firstValue m) \<longleftrightarrow> m \<noteq> []"
    using assms by (cases m) (auto simp: firstValue_def truthy_def)
  show ?thesis
    using map_of_truthy [OF assms] f
    by (cases m)
       (auto simp: selectBestPlayer_def spec_selectPlayer_def orElse_def mapGet_def Let_def
          DEFAULT_SERVER_def SUPPORTED_SERVERS_def firstValue_def orEmpty_def truthy_def
          split: option.splits)
qed

text \<open>
  Claim C5, as stated, fails: the operation also throws before any player is chosen.
  Here the page of the episode is served and parsed, and the chain picks the \<open>chplay\<close>
  address, which is present and not blank; yet the operation throws, because the episode
  has no id.
\<close>

theorem findEpisodeServer_counterexample:
  "fetchHtml sampleEnvQ1N (epUrl (sampleEpisode\<lparr>epId := []\<rparr>)) = Some ''<html/>''
   \<and> LoadDoc sampleEnvQ1N ''<html/>'' = Some samplePlayerDoc
   \<and> spec_selectPlayer (extractPlayersFromPage samplePlayerDoc (sampleEpisode\<lparr>epId := []\<rparr>))
         (spec_requested ''default'') = Some ''https://chplay.net/v/1''
   \<and> \<not> includesStr ''https://chplay.net/v/1'' ''about:blank''
   \<and> findEpisodeServer sampleEnvQ1N (sampleEpisode\<lparr>epId := []\<rparr>) ''default'' = Inl InvalidEpisodeData"
proof -
  have "LoadDoc sampleEnvQ1N ''<html/>'' = Some samplePlayerDoc"
    by (simp add: sampleEnvQ1N_def)
  moreover have "fetchHtml sampleEnvQ1N (epUrl (sampleEpisode\<lparr>epId := []\<rparr>)) = Some ''<html/>''
     \<and> spec_selectPlayer (extractPlayersFromPage samplePlayerDoc (sampleEpisode\<lparr>epId := []\<rparr>))
         (spec_requested ''default'') = Some ''https://chplay.net/v/1''
     \<and> \<not> includesStr ''https://chplay.net/v/1'' ''about:blank''
     \<and> findEpisodeServer sampleEnvQ1N (sampleEpisode\<lparr>epId := []\<rparr>) ''default'' = Inl InvalidEpisodeData"
    by code_simp
  ultimately show ?thesis by blast
qed

text \<open>
  Claim C5, amended.  \<open>findEpisodeServer\<close> throws when the episode has no id or a blank
  URL, when its page cannot be fetched or has an empty body, and when the page cannot be
  parsed.  Otherwise it chooses the player address by the chain: the entry of the
  requested server (of \<open>chplay\<close> when the request is \<open>default\<close> or empty), else the entry of
  \<open>chplay\<close>, else the entry of \<open>ruplay\<close>, else the first entry of the extracted map; it
  throws exactly when that address is absent or contains \<open>about:blank\<close>, and otherwise
  returns a server whose only video source has that address.
\<close>

theorem findEpisodeServer_selection:
  "(\<not> validateEpisodeData episode \<longrightarrow> findEpisodeServer e episode srv = Inl InvalidEpisodeData)
   \<and> (validateEpisodeData episode \<and> (fetchHtml e (epUrl episode) = None \<or> fetchHtml e (epUrl episode) = Some [])
        \<longrightarrow> findEpisodeServer e episode srv = Inl PageNotLoaded)
   \<and> (validateEpisodeData episode \<and> fetchHtml e (epUrl episode) = Some html \<and> html \<noteq> []
        \<and> LoadDoc e html = None \<longrightarrow> findEpisodeServer e episode srv = Inl LoadDocError)
   \<and> (validateEpisodeData episode \<and> fetchHtml e (epUrl episode) = Some html \<and> html \<noteq> []
        \<and> LoadDoc e html = Some doc \<longrightarrow>
        findEpisodeServer e episode srv =
          (case spec_selectPlayer (extractPlayersFromPage doc episode) (spec_requested srv) of
             None \<Rightarrow> Inl NoVideoSource
           | Some u \<Rightarrow>
               if includesStr u ''about:blank'' then Inl NoVideoSource
               else Inr \<lparr>server = spec_requested srv, headers = DEFAULT_HEADERS,
                         videoSources = [\<lparr>sourceUrl = u, sourceType = ''mp4'',
                                           quality = ''1080p'', subtitles = []\<rparr>]\<rparr>))"
proof (intro conjI impI)
  assume "validateEpisodeData episode \<and> fetchHtml e (epUrl episode) = Some html \<and> html \<noteq> []
        \<and> LoadDoc e html = Some doc"
  then have "findEpisodeServer e episode srv =
      (case selectBestPlayer (extractPlayersFromPage doc episode) (selectedServerOf srv) of
         Inl err \<Rightarrow> Inl err
       | Inr playerUrl \<Rightarrow> Inr (buildEpisodeServerResponse (selectedServerOf srv) playerUrl))"
    by (simp add: findEpisodeServer_def Let_def)
  also have "selectedServerOf srv = spec_requested srv"
    by (simp add: selectedServerOf_def spec_requested_def DEFAULT_SERVER_def)
  finally show "findEpisodeServer e episode srv =
          (case spec_selectPlayer (extractPlayersFromPage doc episode) (spec_requested srv) of
             None \<Rightarrow> Inl NoVideoSource
           | Some u \<Rightarrow>
               if includesStr u ''about:blank'' then Inl NoVideoSource
               else Inr \<lparr>server = spec_requested srv, headers = DEFAULT_HEADERS,
                         videoSources = [\<lparr>sourceUrl = u, sourceType = ''mp4'',
                                           quality = ''1080p'', subtitles = []\<rparr>]\<rparr>)"
    by (simp add: selectBestPlayer_chain [OF extractPlayers_values] buildEpisodeServerResponse_def
        split: option.splits)
qed (auto simp: findEpisodeServer_def)

text \<open>
  The amended C5 on the sample episode: the request \<open>default\<close> is served by the \<open>chplay\<close>
  frame of the page.
\<close>

theorem findEpisodeServer_selection_witness:
  "findEpisodeServer sampleEnvQ1N sampleEpisode ''default'' =
     Inr \<lparr>server = ''chplay'', headers = DEFAULT_HEADERS,
          videoSources = [\<lparr>sourceUrl = ''https://chplay.net/v/1'', sourceType = ''mp4'',
                            quality = ''1080p'', subtitles = []\<rparr>]\<rparr>"
proof -
  have "validateEpisodeData sampleEpisode
     \<and> fetchHtml sampleEnvQ1N (epUrl sampleEpisode) = Some ''<html/>'' \<and> ''<html/>'' \<noteq> []"
    by code_simp
  moreover have "LoadDoc sampleEnvQ1N ''<html/>'' = Some samplePlayerDoc"
    by (simp add: sampleEnvQ1N_def)
  ultimately have h: "validateEpisodeData sampleEpisode
     \<and> fetchHtml sampleEnvQ1N (epUrl sampleEpisode) = Some ''<html/>'' \<and> ''<html/>'' \<noteq> []
     \<and> LoadDoc sampleEnvQ1N ''<html/>'' = Some samplePlayerDoc"
    by blast
  have s: "spec_selectPlayer (extractPlayersFromPage samplePlayerDoc sampleEpisode)
             ''chplay'' = Some ''https://chplay.net/v/1''"
    by code_simp
  have r: "spec_requested ''default'' = ''chplay''"
    by (simp add: spec_requested_def)
  have b: "\<not> includesStr ''https://chplay.net/v/1'' ''about:blank''"
    by code_simp
  from findEpisodeServer_selection [of sampleEpisode sampleEnvQ1N "''default''" "''<html/>''" samplePlayerDoc] h
  have "findEpisodeServer sampleEnvQ1N sampleEpisode ''default'' =
          (case spec_selectPlayer (extractPlayersFromPage samplePlayerDoc sampleEpisode) (spec_requested ''default'') of
             None \<Rightarrow> Inl NoVideoSource
           | Some u \<Rightarrow>
               if includesStr u ''about:blank'' then Inl NoVideoSource
               else Inr \<lparr>server = spec_requested ''default'', headers = DEFAULT_HEADERS,
                         videoSources = [\<lparr>sourceUrl = u, sourceType = ''mp4'',
                                           quality = ''1080p'', subtitles = []\<rparr>]\<rparr>)"
    by blast
  then show ?thesis unfolding r s using b by simp
qed

section \<open>A search whose request fails (C6)\<close>

text \<open>
  Claim C6.  When the request for the search page throws, or is answered with a status
  that is not OK, the search of each provider returns the empty list.  In the Q1N,
  MangaLivre and AnimesROLL providers whatever the body of the operation throws is caught;
  in the torrent provider the request is wrapped and nothing else can throw: the four
  operations are total, and their value here is the empty list.
\<close>

theorem search_fetch_failure:
  "(fetch e ''GET'' (searchURL this e (query opts)) = Threw
      \<or> (\<exists>b. fetch e ''GET'' (searchURL this e (query opts)) = Response False b)
      \<longrightarrow> search this e opts = [])
   \<and> (fetch e ''GET'' (buildSearchUrl e q dub) = Threw
      \<or> (\<exists>b. fetch e ''GET'' (buildSearchUrl e q dub) = Response False b)
      \<longrightarrow> searchQ1N e q dub = [])
   \<and> (fetch e ''GET'' (searchUrlML e q) = Threw
      \<or> (\<exists>b. fetch e ''GET'' (searchUrlML e q) = Response False b)
      \<longrightarrow> searchML e q = [])
   \<and> (fetch e ''GET'' (searchUrlAnroll e opts) = Threw
      \<or> (\<exists>b. fetch e ''GET'' (searchUrlAnroll e opts) = Response False b)
      \<longrightarrow> searchAnroll decode e opts = [])"
  by (auto simp: search_def fetchWithUserAgent_def searchQ1N_def searchBodyQ1N_def fetchHtml_def
      searchML_def searchBodyML_def searchAnroll_def searchBodyAnroll_def catchEmpty_def Let_def)

text \<open>C6 on a host whose requests all throw, and on a site that answers 503.\<close>

theorem search_fetch_failure_witness:
  "search newProvider offlineEnv \<lparr>media = media narutoOptions, query = ''naruto''\<rparr> = []
   \<and> searchQ1N offlineEnv ''naruto'' False = []
   \<and> searchML offlineEnv ''naruto'' = []
   \<and> search newProvider unavailableEnv \<lparr>media = media narutoOptions, query = ''naruto''\<rparr> = []
   \<and> searchQ1N unavailableEnv ''naruto'' True = []
   \<and> searchML unavailableEnv ''naruto'' = []
   \<and> searchAnroll (\<lambda>text. None) offlineEnv \<lparr>media = media narutoOptions, query = ''naruto''\<rparr> = []
   \<and> searchAnroll (\<lambda>text. None) unavailableEnv \<lparr>media = media narutoOptions, query = ''naruto''\<rparr> = []"
proof -
  have a: "fetch offlineEnv m u = Threw" for m u
    by (simp add: offlineEnv_def)
  have b: "\<exists>b. fetch unavailableEnv m u = Response False b" for m u
    by (simp add: unavailableEnv_def)
  show ?thesis
    using a b
      search_fetch_failure [of offlineEnv newProvider
        "\<lparr>media = media narutoOptions, query = ''naruto''\<rparr>" "''naruto''" False "\<lambda>text. None"]
      search_fetch_failure [of unavailableEnv newProvider
        "\<lparr>media = media narutoOptions, query = ''naruto''\<rparr>" "''naruto''" True "\<lambda>text. None"]
    by blast
qed


section \<open>The order of the chapters (C10)\<close>

lemma set_insertCmp: "set (insertCmp cmp x ys) = insert x (set ys)"
  by (induction ys) auto

lemma set_sortCmp: "set (sortCmp cmp xs) = set xs"
  by (induction xs) (auto simp: sortCmp_def set_insertCmp)

lemma length_insertCmp: "length (insertCmp cmp x ys) = Suc (length ys)"
  by (induction ys) auto

lemma length_sortCmp: "length (sortCmp cmp xs) = length xs"
  by (induction xs) (auto simp: sortCmp_def length_insertCmp)

lemma compareChapters_le:
  "chapterNumber a \<noteq> None \<Longrightarrow> chapterNumber b \<noteq> None \<Longrightarrow>
     compareChapters a b \<le> 0 \<longleftrightarrow> spec_chapterValue a \<le> spec_chapterValue b"
  by (auto simp: compareChapters_def spec_chapterValue_def split: if_splits)

lemma sorted_insertCmp:
  assumes "chapterNumber x \<noteq> None" "\<forall>y \<in> set ys. chapterNumber y \<noteq> None"
    "sorted (map spec_chapterValue ys)"
  shows "sorted (map spec_chapterValue (insertCmp compareChapters x ys))"
  using assms
proof (induction ys)
  case Nil
  then show ?case by simp
next
  case (Cons y ys)
  show ?case
  proof (cases "compareChapters x y \<le> 0")
    case True
    with Cons.prems compareChapters_le [of x y]
    have "spec_chapterValue x \<le> spec_chapterValue y" by simp
    with Cons.prems True show ?thesis by auto
  next
    case False
    with Cons.prems compareChapters_le [of x y]
    have "spec_chapterValue y \<le> spec_chapterValue x" by simp
    moreover from Cons have "sorted (map spec_chapterValue (insertCmp compareChapters x ys))" by simp
    ultimately show ?thesis using Cons.prems False by (auto simp: set_insertCmp)
  qed
qed

lemma sorted_sortCmp:
  "\<forall>c \<in> set cs. chapterNumber c \<noteq> None \<Longrightarrow>
     sorted (map spec_chapterValue (sortCmp compareChapters cs))"
proof (induction cs)
  case Nil
  then show ?case by (simp add: sortCmp_def)
next
  case (Cons c cs)
  then have "sorted (map spec_chapterValue (sortCmp compareChapters cs))" by simp
  with Cons.prems
  have "sorted (map spec_chapterValue (insertCmp compareChapters c (sortCmp compareChapters cs)))"
    by (intro sorted_insertCmp) (auto simp: set_sortCmp)
  then show ?case by (simp add: sortCmp_def)
qed

lemma map_indexed:
  "map f (map (\<lambda>(i, c). c\<lparr>chapterIndex := i\<rparr>) (zip [0..<length xs] xs)) = map f xs"
  if "\<And>c i. f (c\<lparr>chapterIndex := i\<rparr>) = f c"
  by (rule nth_equalityI) (simp_all add: that)

text \<open>
  What holds of \<open>sortAndIndexChapters\<close>: the indices are the positions.  When every label
  has a numeric value, the list of this model, whose values are exact decimals, is in
  non-decreasing order of them; the doubles of the source agree with that on labels of up
  to 15 significant digits.
\<close>

lemma sortAndIndexChapters_index:
  "map chapterIndex (sortAndIndexChapters cs) = [0..<length cs]"
  by (rule nth_equalityI) (simp_all add: sortAndIndexChapters_def Let_def length_sortCmp)

lemma sortAndIndexChapters_sorted:
  assumes "\<forall>c \<in> set cs. chapterNumber c \<noteq> None"
  shows "sorted (map spec_chapterValue (sortAndIndexChapters cs))"
proof -
  have "map spec_chapterValue (sortAndIndexChapters cs)
        = map spec_chapterValue (sortCmp compareChapters cs)"
    unfolding sortAndIndexChapters_def Let_def
    by (rule map_indexed) (simp add: spec_chapterValue_def chapterNumber_def)
  with sorted_sortCmp [OF assms] show ?thesis by simp
qed

text \<open>
  Claim C10 on the sample manga, whose second chapter is labelled with a lone dot: the
  label has no numeric value, the comparator answers \<open>NaN\<close> for it, and the list comes back
  in the order 2, dot, 1, which is not non-decreasing.  The indices are the positions.
\<close>

theorem findChapters_unsorted:
  "map chapterLabel (findChapters sampleEnvML ''x'') = [''2'', ''.'', ''1'']
   \<and> map chapterNumber (findChapters sampleEnvML ''x'') = [Some 2, None, Some 1]
   \<and> map chapterIndex (findChapters sampleEnvML ''x'') = [0, 1, 2]"
  by code_simp

section \<open>State and determinism (C7)\<close>


subsection \<open>The loops over \<open>exec\<close>\<close>

text \<open>
  A match never ends after the end of the input, and a match of an expression that
  reads a character is not empty: \<open>exec\<close> with such an expression leaves a \<open>lastIndex\<close>
  beyond the one it found.
\<close>

lemma repStates_length:
  "st \<in> set (repStates P lo hi k (p, s, g)) \<Longrightarrow> length (fst (snd st)) + (lo - k) \<le> length s"
proof (induction s arbitrary: k p)
  case Nil
  then show ?case by (simp split: if_splits)
next
  case (Cons x xs)
  from Cons.prems consider
    (a) "st \<in> set (repStates P lo hi (Suc k) (Some x, xs, g))"
    | (b) "lo \<le> k" "st = (p, x # xs, g)"
    by (auto split: if_splits)
  then show ?case
  proof cases
    case a
    from Cons.IH [OF a] show ?thesis by simp
  next
    case b
    then show ?thesis by simp
  qed
qed

lemma lazyStates_length:
  "st \<in> set (lazyStates P (p, s, g)) \<Longrightarrow> length (fst (snd st)) \<le> length s"
proof (induction s arbitrary: p)
  case Nil
  then show ?case by simp
next
  case (Cons x xs)
  from Cons.prems consider
    (a) "st = (p, x # xs, g)" | (b) "st \<in> set (lazyStates P (Some x, xs, g))"
    by (auto split: if_splits)
  then show ?case
  proof cases
    case a
    then show ?thesis by simp
  next
    case b
    from Cons.IH [OF b] show ?thesis by simp
  qed
qed

lemma rxRun_length:
  "st \<in> set (rxRun ci r st0) \<Longrightarrow> length (fst (snd st)) \<le> length (fst (snd st0))"
proof (induction r arbitrary: st st0)
  case (Chr c)
  then show ?case by (cases st0) (auto split: list.splits if_splits)
next
  case (Cls P)
  then show ?case by (cases st0) (auto split: list.splits if_splits)
next
  case (Rep P lo hi)
  then show ?case
    using repStates_length [of st P lo hi 0] by (cases st0) fastforce
next
  case (Seq a b)
  from Seq.prems obtain st1 where "st1 \<in> set (rxRun ci a st0)" "st \<in> set (rxRun ci b st1)"
    by auto
  from Seq.IH(1) [OF this(1)] Seq.IH(2) [OF this(2)] show ?case by simp
next
  case (Alt a b)
  from Alt.prems have "st \<in> set (rxRun ci a st0) \<or> st \<in> set (rxRun ci b st0)" by simp
  with Alt.IH show ?case by blast
next
  case (Grp n a)
  obtain p s g where st0: "st0 = (p, s, g)" by (cases st0)
  with Grp.prems obtain st1 where "st1 \<in> set (rxRun ci a st0)" "fst (snd st) = fst (snd st1)"
    by (auto simp: split_def)
  with Grp.IH [OF this(1)] show ?case by simp
next
  case WordB
  then show ?case by (cases st0) (auto split: if_splits)
next
  case Bol
  then show ?case by (cases st0) (auto split: if_splits)
next
  case Eol
  then show ?case by (cases st0) (auto split: if_splits)
next
  case Eps
  then show ?case by simp
next
  case (Lazy P)
  then show ?case using lazyStates_length [of st P] by (cases st0) fastforce
qed

lemma rxRun_consuming:
  "consuming r \<Longrightarrow> st \<in> set (rxRun ci r st0) \<Longrightarrow> length (fst (snd st)) < length (fst (snd st0))"
proof (induction r arbitrary: st st0)
  case (Chr c)
  then show ?case by (cases st0) (auto split: list.splits if_splits)
next
  case (Cls P)
  then show ?case by (cases st0) (auto split: list.splits if_splits)
next
  case (Rep P lo hi)
  then show ?case
    using repStates_length [of st P lo hi 0] by (cases st0) fastforce
next
  case (Seq a b)
  from Seq.prems obtain st1 where s: "st1 \<in> set (rxRun ci a st0)" "st \<in> set (rxRun ci b st1)"
    by auto
  from Seq.prems(1) consider "consuming a" | "consuming b" by auto
  then show ?case
  proof cases
    case 1
    from Seq.IH(1) [OF 1 s(1)] rxRun_length [OF s(2)] show ?thesis by simp
  next
    case 2
    from Seq.IH(2) [OF 2 s(2)] rxRun_length [OF s(1)] show ?thesis by simp
  qed
next
  case (Alt a b)
  from Alt.prems have "st \<in> set (rxRun ci a st0) \<or> st \<in> set (rxRun ci b st0)"
    and "consuming a" "consuming b" by simp_all
  with Alt.IH show ?case by blast
next
  case (Grp n a)
  obtain p s g where st0: "st0 = (p, s, g)" by (cases st0)
  with Grp.prems obtain st1 where "st1 \<in> set (rxRun ci a st0)" "fst (snd st) = fst (snd st1)"
    by (auto simp: split_def)
  with Grp.IH [OF _ this(1)] Grp.prems(1) show ?case by simp
qed simp_all

lemma rxSearch_bounds:
  "rxSearch ci r p s i = Some (m, j) \<Longrightarrow> i \<le> j \<and> j + length (whole m) \<le> i + length s"
proof (induction s arbitrary: p i)
  case Nil
  then show ?case by (auto simp: mkMatch_def split: list.splits)
next
  case (Cons x xs)
  show ?case
  proof (cases "rxRun ci r (p, x # xs, Map.empty)")
    case Nil
    with Cons.prems have "rxSearch ci r (Some x) xs (Suc i) = Some (m, j)" by simp
    from Cons.IH [OF this] show ?thesis by simp
  next
    case (Cons st sts)
    with Cons.prems show ?thesis by (auto simp: mkMatch_def split_def)
  qed
qed

lemma rxSearch_nonempty:
  "consuming r \<Longrightarrow> rxSearch ci r p s i = Some (m, j) \<Longrightarrow> whole m \<noteq> []"
proof (induction s arbitrary: p i)
  case Nil
  show ?case
  proof (cases "rxRun ci r (p, [], Map.empty)")
    case Nil
    with Nil.prems show ?thesis by simp
  next
    case (Cons st sts)
    then have "st \<in> set (rxRun ci r (p, [], Map.empty))" by simp
    from rxRun_consuming [OF Nil.prems(1) this] show ?thesis by simp
  qed
next
  case (Cons x xs)
  show ?case
  proof (cases "rxRun ci r (p, x # xs, Map.empty)")
    case Nil
    with Cons.prems have "rxSearch ci r (Some x) xs (Suc i) = Some (m, j)" by simp
    from Cons.IH [OF Cons.prems(1) this] show ?thesis .
  next
    case (Cons st sts)
    then have "st \<in> set (rxRun ci r (p, x # xs, Map.empty))" by simp
    from rxRun_consuming [OF Cons.prems(1) this] Cons Cons.prems(2)
    show ?thesis by (cases st) (auto simp: mkMatch_def)
  qed
qed


lemma rxExec_Some:
  assumes "consuming (snd re)" "rxExec re s i = (Some m, j)"
  shows "i < j \<and> j \<le> length s"
proof -
  from assms(2) have le: "i \<le> length s" by (auto simp: rxExec_def split: if_splits)
  with assms(2) obtain k where
    k: "rxSearch (fst re) (snd re) (charBefore s i) (drop i s) i = Some (m, k)"
    and j: "j = k + length (whole m)"
    by (auto simp: rxExec_def split: if_splits option.splits)
  from rxSearch_bounds [OF k] rxSearch_nonempty [OF assms(1) k] le j
  show ?thesis by (cases "whole m") auto
qed

text \<open>
  Both expressions of the refactored Q1N provider read a character, so both loops of
  \<open>extractFromHtml\<close> end; and they end when \<open>exec\<close> fails, which leaves \<open>lastIndex\<close> at 0.
\<close>

lemma consuming_IFRAME_AVISO: "consuming (snd IFRAME_AVISO)"
  by (simp add: IFRAME_AVISO_def)

lemma consuming_IFRAME_DIRECT: "consuming (snd IFRAME_DIRECT)"
  by (simp add: IFRAME_DIRECT_def)










subsection \<open>The clock\<close>










subsection \<open>The environment\<close>
















subsection \<open>The later form of the refactored provider\<close>

text \<open>
  In the later form of the refactored Q1N provider both loops end as well.  But a
  warning frame whose \<open>url\<close> parameter cannot be decoded ends the first loop by an
  exception, and \<open>lastIndex\<close> stays where that frame ends: the next call starts its search
  there.  On the sample pages, the call for the third episode returns the player of its
  warning frame when it is the first call, and the fallback player when it follows a call
  for the second episode, whatever \<open>extractVideoUrl\<close> does.
\<close>

termination avisoLoopLater
proof (relation "measure (\<lambda>(resolve, e, html, lastIndex, m). Suc (length html) - lastIndex)", goal_cases)
  case 1
  show ?case by simp
next
  case (2 resolve e html lastIndex m x1 x2 match)
  then have "rxExec IFRAME_AVISO html lastIndex = (Some match, x2)" by simp
  from rxExec_Some [OF consuming_IFRAME_AVISO this] show ?case by auto
next
  case (3 resolve e html lastIndex m x1 x2 match urlMatch playerUrl)
  then have "rxExec IFRAME_AVISO html lastIndex = (Some match, x2)" by simp
  from rxExec_Some [OF consuming_IFRAME_AVISO this] show ?case by auto
qed

termination directLoopLater
proof (relation "measure (\<lambda>(html, lastIndex, m). Suc (length html) - lastIndex)", goal_cases)
  case 1
  show ?case by simp
next
  case (2 html lastIndex m x1 x2 match)
  then have "rxExec IFRAME_DIRECT html lastIndex = (Some match, x2)" by simp
  from rxExec_Some [OF consuming_IFRAME_DIRECT this] show ?case by auto
qed

declare avisoLoopLater.simps [simp del] directLoopLater.simps [simp del]

lemma findEpisodeServerLater_lastIndex:
  "snd (findEpisodeServerLater resolve sampleEnvLater initialRuntime brokenEpisode ''default'')
   = \<lparr>avisoLastIndex = 28, directLastIndex = 0\<rparr>"
  by code_simp

lemma findEpisodeServerLater_alone:
  "fst (findEpisodeServerLater resolve sampleEnvLater initialRuntime plainEpisode ''default'')
   = Inr (buildEpisodeServer ''chplay'' ''/aviso/x'')"
  by code_simp

lemma findEpisodeServerLater_after:
  "fst (findEpisodeServerLater resolve sampleEnvLater
          (snd (findEpisodeServerLater resolve sampleEnvLater initialRuntime brokenEpisode ''default''))
          plainEpisode ''default'')
   = Inr (buildEpisodeServer ''chplay'' ''https://q1n.net/player/chplay/naruto-3'')"
  unfolding findEpisodeServerLater_lastIndex by code_simp





end
